theory Spec2Isabelle
  imports Main "HOL-Library.Word"
begin

section \<open>Data shared by the plugin loader and the state processor\<close>

type_synonym bytes = "8 word list"

text \<open>
  The package-level variables of package \<open>dzd\<close> that the state processor reads and writes.
  Addresses and hashes appear in them only through their \<open>String()\<close> rendering, so they are
  strings here too.
\<close>

record dzd_vars =
  CALL_LAYER :: int
  CALL_STACK :: "string list"
  ALL_STACK :: "string list"
  EXTERNAL_FLAG :: bool
  BLOCKING_FLAG :: bool
  PLUGIN_SNAPSHOT_ID :: int
  CALLVALID_MAP :: "int \<rightharpoonup> bool"
  TxHash :: string

text \<open>The package-level variables of package \<open>dan\<close>: the pending reconfiguration requests.\<close>

record dan_vars =
  IsReg :: bool
  RegPath :: string
  IsUn :: bool
  UnPlg :: string
  Clear :: string

text \<open>The collectors of the external collector library, as far as the processor fills them.\<close>

record BlockCollector =
  bc_Op :: string
  bc_ParentHash :: string
  bc_UncleHash :: string
  bc_Coinbase :: string
  bc_StateRoot :: string
  bc_TxHashRoot :: string
  bc_ReceiptHash :: string
  bc_Difficulty :: string
  bc_Number :: string
  bc_GasLimit :: "64 word"
  bc_GasUsed :: "64 word"
  bc_Time :: "64 word"
  bc_Extra :: bytes
  bc_MixDigest :: string
  bc_Nonce :: "64 word"

record CallCollector =
  cc_ContractCode :: bytes
  cc_InputData :: bytes

record CreateCollector =
  cr_ContractAddr :: string
  cr_ContractDeployCode :: bytes
  cr_ContractRuntimeCode :: bytes

record TransCollector =
  tc_Op :: string
  tc_TxHash :: string
  tc_BlockNumber :: string
  tc_BlockTime :: string
  tc_From :: string
  tc_To :: string
  tc_Value :: string
  tc_GasPrice :: string
  tc_GasLimit :: "64 word"
  tc_GasUsed :: "64 word"
  tc_Nonce :: "64 word"
  tc_CallLayer :: int
  tc_CallType :: string
  tc_IsSuccess :: bool
  tc_CallInfo :: CallCollector
  tc_CreateInfo :: CreateCollector

text \<open>
  What \<open>SendBlockInfo\<close>, \<open>SendTransInfo\<close> and \<open>SendFlag\<close> hand to a handler: the event
  name together with the collector it was called on.
\<close>

datatype payload =
    BlockInfo string BlockCollector
  | TransInfo string TransCollector
  | Flag string

text \<open>
  A handler is code of an extension. Its returned status byte and message are discarded by
  the caller; what remains observable is what it does to the \<open>dzd\<close> variables (this is how
  an extension requests a rollback).
\<close>

type_synonym handler = "payload \<Rightarrow> dzd_vars \<Rightarrow> dzd_vars"

section \<open>The opcode registry\<close>

text \<open>
  Modelled from the spec: type \<open>MonitorType\<close> and its setters are not among the sources.
  The spec's HandlerBinding is \<open>{ownerName, eventName, handler, loggerHandle}\<close>; the fields
  below are the ones the setters called by \<open>RegisterPlugin\<close> name. A freshly declared
  monitor has Go's zero values, with \<open>None\<close> for the nil function.
\<close>

record MonitorType =
  m_PluginName :: string
  m_Logger :: string
  m_SendFunc :: "handler option"
  m_Opcode :: string
  m_IAL_Option :: string

definition zero_monitor :: MonitorType where
  "zero_monitor = \<lparr>m_PluginName = [], m_Logger = [], m_SendFunc = None,
     m_Opcode = [], m_IAL_Option = []\<rparr>"

definition SetPluginName :: "string \<Rightarrow> MonitorType \<Rightarrow> MonitorType" where
  "SetPluginName n m = m\<lparr>m_PluginName := n\<rparr>"

definition SetLogger :: "string \<Rightarrow> MonitorType \<Rightarrow> MonitorType" where
  "SetLogger n m = m\<lparr>m_Logger := n\<rparr>"

definition SetSendFunc :: "handler \<Rightarrow> MonitorType \<Rightarrow> MonitorType" where
  "SetSendFunc f m = m\<lparr>m_SendFunc := Some f\<rparr>"

definition SetOpcode :: "string \<Rightarrow> MonitorType \<Rightarrow> MonitorType" where
  "SetOpcode n m = m\<lparr>m_Opcode := n\<rparr>"

definition SetIAL_Optinon :: "string \<Rightarrow> MonitorType \<Rightarrow> MonitorType" where
  "SetIAL_Optinon n m = m\<lparr>m_IAL_Option := n\<rparr>"

text \<open>
  Modelled from the spec: type \<open>PluginManages\<close> and its methods are not among the sources.
  The spec's OpcodeRegistry maps an event name to the currently bound handler binding, and
  the dispatcher is marked active by \<open>Start\<close> and inactive by \<open>Stop\<close>.
\<close>

record PluginManages =
  registry :: "string \<rightharpoonup> MonitorType"
  running :: bool

text \<open>
  Modelled from the spec: \<open>Register(eventName, binding)\<close> is last-writer-wins per event
  name.
\<close>

definition RegisterOpcode :: "string \<Rightarrow> MonitorType \<Rightarrow> PluginManages \<Rightarrow> PluginManages" where
  "RegisterOpcode opcode monitor manage =
     manage\<lparr>registry := (registry manage)(opcode \<mapsto> monitor)\<rparr>"

text \<open>
  Modelled from the spec: \<open>IsEventRegistered(eventName)\<close> delegates to the registry's
  \<open>IsRegistered(eventName)\<close>.
\<close>

definition GetOpcodeRegister :: "string \<Rightarrow> PluginManages \<Rightarrow> bool" where
  "GetOpcodeRegister name manage = (registry manage name \<noteq> None)"

text \<open>
  Modelled from the spec: \<open>UnregisterOwner(ownerName)\<close> removes every binding whose owner
  name matches and no other.
\<close>

definition UnRegisterPlg :: "string \<Rightarrow> PluginManages \<Rightarrow> PluginManages" where
  "UnRegisterPlg owner manage =
     manage\<lparr>registry := (\<lambda>k. case registry manage k of
                                None \<Rightarrow> None
                              | Some m \<Rightarrow> if m_PluginName m = owner then None else Some m)\<rparr>"

text \<open>Modelled from the spec: \<open>Start()\<close> marks the subsystem active.\<close>

definition Start :: "PluginManages \<Rightarrow> PluginManages" where
  "Start manage = manage\<lparr>running := True\<rparr>"

text \<open>Modelled from the spec: \<open>Stop()\<close> marks the subsystem inactive and is idempotent.\<close>

definition Stop :: "PluginManages \<Rightarrow> PluginManages" where
  "Stop manage = manage\<lparr>running := False\<rparr>"

section \<open>Loading one extension: \<open>RegisterPlugin\<close>\<close>

text \<open>
  Go's \<open>plugin\<close> package and the JSON decoder are outside the repository. An opened plugin
  is its symbol table; a symbol is a value whose dynamic type the loader asserts. The
  environment gives what \<open>plugin.Open\<close> finds at a path and what \<open>json.Unmarshal\<close> decodes.
\<close>

datatype symbol =
    RegisterFn bytes
  | HandlerFn handler
  | OtherSym

type_synonym plugin = "string \<rightharpoonup> symbol"

text \<open>
  \<open>RegisterInfo.OpCode\<close> is a Go map. Its entries are listed in the order in which the
  \<open>range\<close> loop visits them, which Go leaves unspecified: every property below is proved
  for every such order.
\<close>

record RegisterInfo =
  PluginName :: string
  OpCode :: "(string \<times> string) list"

record loader_env =
  plugin_Open :: "string \<rightharpoonup> plugin"
  json_Unmarshal :: "bytes \<rightharpoonup> RegisterInfo"

text \<open>How the process ends when it does not return: \<open>os.Exit(code)\<close> or a panic.\<close>

datatype halt =
    Exit int
  | Panic string

text \<open>The body of the loop over the option map (lines 74 to 94).\<close>

fun register_loop ::
  "plugin \<Rightarrow> string \<Rightarrow> (string \<times> string) list \<Rightarrow> PluginManages \<Rightarrow> halt + PluginManages" where
  "register_loop plugin pname [] manage = Inr manage"
| "register_loop plugin pname ((opcode, sendfunc) # rest) manage =
     (let monitor = SetLogger pname (SetPluginName pname zero_monitor) in
      case plugin sendfunc of
        None \<Rightarrow> Inl (Panic ''symbol not found'')
      | Some symGreeter \<Rightarrow>
          (case symGreeter of
             HandlerFn rcvefunc \<Rightarrow>
               register_loop plugin pname rest
                 (RegisterOpcode opcode
                    (SetIAL_Optinon opcode (SetOpcode opcode (SetSendFunc rcvefunc monitor)))
                    manage)
           | _ \<Rightarrow> Inl (Exit 0)))"

definition RegisterPlugin ::
  "loader_env \<Rightarrow> PluginManages \<Rightarrow> string \<Rightarrow> halt + (bool \<times> PluginManages)" where
  "RegisterPlugin env manage path =
     (case plugin_Open env path of
        None \<Rightarrow> Inl (Exit (- 1))
      | Some plugin \<Rightarrow>
          (case plugin ''Register'' of
             None \<Rightarrow> Inl (Panic ''symbol not found'')
           | Some register_method \<Rightarrow>
               (case register_method of
                  RegisterFn register_res \<Rightarrow>
                    (case json_Unmarshal env register_res of
                       None \<Rightarrow> Inl (Panic ''cannot parse RegisterInfo'')
                     | Some register_info \<Rightarrow>
                         (case register_loop plugin (PluginName register_info)
                                 (OpCode register_info) manage of
                            Inl h \<Rightarrow> Inl h
                          | Inr manage' \<Rightarrow> Inr (True, manage')))
                | _ \<Rightarrow> Inl (Panic ''false''))))"

section \<open>The state processor\<close>

subsection \<open>Pipeline data\<close>

record Header =
  h_ParentHash :: string
  h_UncleHash :: string
  h_Coinbase :: string
  h_Root :: string
  h_TxHash :: string
  h_ReceiptHash :: string
  h_Difficulty :: int
  h_Number :: int
  h_GasLimit :: "64 word"
  h_GasUsed :: "64 word"
  h_Time :: "64 word"
  h_Extra :: bytes
  h_MixDigest :: string
  h_Nonce :: "64 word"
  h_Hash :: string

record Message =
  msg_To :: "string option"
  msg_From :: string
  msg_Value :: int
  msg_GasPrice :: int
  msg_Gas :: "64 word"
  msg_Data :: bytes

text \<open>
  \<open>tx_AsMessage\<close> is what \<open>tx.AsMessage(signer, baseFee)\<close> returns for this transaction:
  an error or the message.
\<close>

record Transaction =
  tx_Hash :: string
  tx_Nonce :: "64 word"
  tx_Type :: "8 word"
  tx_AsMessage :: "string + Message"

record Block =
  b_Header :: Header
  b_Transactions :: "Transaction list"

record ExecutionResult =
  UsedGas :: "64 word"
  Err :: "string option"
  ReturnData :: bytes

definition Failed :: "ExecutionResult \<Rightarrow> bool" where
  "Failed r = (Err r \<noteq> None)"

text \<open>The receipt without its logs and bloom filter, which no hook reads.\<close>

record Receipt =
  r_Type :: "8 word"
  r_PostState :: bytes
  r_CumulativeGasUsed :: "64 word"
  r_Status :: "64 word"
  r_TxHash :: string
  r_GasUsed :: "64 word"
  r_ContractAddress :: "string option"
  r_BlockHash :: string
  r_BlockNumber :: int
  r_TransactionIndex :: nat

definition ReceiptStatusFailed :: "64 word" where
  "ReceiptStatusFailed = 0"

definition ReceiptStatusSuccessful :: "64 word" where
  "ReceiptStatusSuccessful = 1"

subsection \<open>The execution engine at its boundary\<close>

text \<open>
  The EVM, the state database, the gas pool and the chain configuration are opaque
  services. Their joint state has an abstract type \<open>'s\<close>, and the operations the
  processor calls on them are the fields of an \<open>engine\<close>. \<open>ApplyMessage\<close> runs the
  message; the hooks inside the EVM and the handlers they call may rewrite the \<open>dzd\<close>
  variables, so it returns them too. It returns Go's pair of a result pointer (\<open>None\<close> is
  nil) and an error (\<open>None\<close> is nil).
\<close>

record 's engine =
  ApplyMessage :: "Message \<Rightarrow> dzd_vars \<Rightarrow> 's
                    \<Rightarrow> (ExecutionResult option \<times> string option) \<times> dzd_vars \<times> 's"
  RevertToSnapshot :: "int \<Rightarrow> 's \<Rightarrow> 's"
  Exist :: "'s \<Rightarrow> string \<Rightarrow> bool"
  GetCode :: "'s \<Rightarrow> string \<Rightarrow> bytes"
  FinaliseOrRoot :: "int \<Rightarrow> 's \<Rightarrow> bytes \<times> 's"
  CreateAddress :: "string \<Rightarrow> 64 word \<Rightarrow> string"
  TxIndex :: "'s \<Rightarrow> nat"
  SetTxStart :: "bool \<Rightarrow> 's \<Rightarrow> 's"
  ApplyDAOHardFork :: "int \<Rightarrow> 's \<Rightarrow> 's"
  Prepare :: "string \<Rightarrow> nat \<Rightarrow> 's \<Rightarrow> 's"
  Finalize :: "'s \<Rightarrow> 's"

subsection \<open>The world and what the processor does to it\<close>

text \<open>
  The trace records, in order, what the code of the processor itself does at its hook
  points: calls of the dispatcher's lifecycle and reconfiguration methods, the revert
  sent to the state store, the start of the processing of a transaction in a block, the
  entry into a guarded block that builds the payload of an event from pipeline state
  (\<open>Build\<close>), and the invocation of a bound handler (\<open>Invoke\<close>).
\<close>

datatype action =
    CallStart
  | CallStop
  | CallRegisterPlugin string
  | CallUnRegisterPlg
  | CallRevertToSnapshot int
  | CallPrepare string nat
  | Build string
  | Invoke string payload

record 's world =
  dzd :: dzd_vars
  dan :: dan_vars
  TransferDataPlg :: PluginManages
  st :: 's
  usedGas :: "64 word"
  trace :: "action list"

definition log :: "action \<Rightarrow> 's world \<Rightarrow> 's world" where
  "log a w = w\<lparr>trace := trace w @ [a]\<rparr>"

text \<open>
  Modelled from the spec: \<open>SendDataToPlugin\<close> is a method of \<open>PluginManages\<close>. The spec's
  \<open>Dispatch\<close> calls the bound handler synchronously with the payload and discards what it
  returns; with no handler bound it does nothing.
\<close>

definition SendDataToPlugin :: "string \<Rightarrow> payload \<Rightarrow> 's world \<Rightarrow> 's world" where
  "SendDataToPlugin name p w =
     (case registry (TransferDataPlg w) name of
        None \<Rightarrow> w
      | Some m \<Rightarrow>
          (case m_SendFunc m of
             None \<Rightarrow> w
           | Some f \<Rightarrow> log (Invoke name p) (w\<lparr>dzd := f p (dzd w)\<rparr>)))"

text \<open>How a call of the processor ends: a panic or exit, a returned error, or a value.\<close>

datatype 'a outcome =
    Halted halt
  | Failure string
  | Done 'a

subsection \<open>Decimal rendering\<close>

text \<open>\<open>strconv.Itoa\<close> and \<open>big.Int.String\<close>: decimal digits, with a minus sign.\<close>

fun digits :: "nat \<Rightarrow> string" where
  "digits n =
     (if n < 10 then [''0123456789'' ! n]
      else digits (n div 10) @ [''0123456789'' ! (n mod 10)])"

declare digits.simps [simp del]

definition Itoa :: "int \<Rightarrow> string" where
  "Itoa i = (if i < 0 then CHR ''-'' # digits (nat (- i)) else digits (nat i))"

subsection \<open>\<open>NewBlockCollector\<close>, \<open>NewTransCollector\<close> and friends\<close>

text \<open>The constructors of the collector library return empty collectors.\<close>

definition NewBlockCollector :: BlockCollector where
  "NewBlockCollector = \<lparr>bc_Op = [], bc_ParentHash = [], bc_UncleHash = [], bc_Coinbase = [],
     bc_StateRoot = [], bc_TxHashRoot = [], bc_ReceiptHash = [], bc_Difficulty = [],
     bc_Number = [], bc_GasLimit = 0, bc_GasUsed = 0, bc_Time = 0, bc_Extra = [],
     bc_MixDigest = [], bc_Nonce = 0\<rparr>"

definition NewCallCollector :: CallCollector where
  "NewCallCollector = \<lparr>cc_ContractCode = [], cc_InputData = []\<rparr>"

definition NewCreateCollector :: CreateCollector where
  "NewCreateCollector = \<lparr>cr_ContractAddr = [], cr_ContractDeployCode = [],
     cr_ContractRuntimeCode = []\<rparr>"

definition NewTransCollector :: TransCollector where
  "NewTransCollector = \<lparr>tc_Op = [], tc_TxHash = [], tc_BlockNumber = [], tc_BlockTime = [],
     tc_From = [], tc_To = [], tc_Value = [], tc_GasPrice = [], tc_GasLimit = 0,
     tc_GasUsed = 0, tc_Nonce = 0, tc_CallLayer = 0, tc_CallType = [], tc_IsSuccess = False,
     tc_CallInfo = NewCallCollector, tc_CreateInfo = NewCreateCollector\<rparr>"

subsection \<open>\<open>Process\<close>: the block-info hook (lines 79 to 97)\<close>

definition blockInfoHook :: "Header \<Rightarrow> 's world \<Rightarrow> 's world" where
  "blockInfoHook header w =
     (if GetOpcodeRegister ''handle_BLOCK_INFO'' (TransferDataPlg w) then
        let blockcollector = NewBlockCollector\<lparr>
              bc_Op := ''Block'' @ Itoa (h_Number header),
              bc_ParentHash := h_ParentHash header,
              bc_UncleHash := h_UncleHash header,
              bc_Coinbase := h_Coinbase header,
              bc_StateRoot := h_Root header,
              bc_TxHashRoot := h_TxHash header,
              bc_ReceiptHash := h_ReceiptHash header,
              bc_Difficulty := Itoa (h_Difficulty header),
              bc_Number := Itoa (h_Number header),
              bc_GasLimit := h_GasLimit header,
              bc_GasUsed := h_GasUsed header,
              bc_Time := h_Time header,
              bc_Extra := h_Extra header,
              bc_MixDigest := h_MixDigest header,
              bc_Nonce := h_Nonce header\<rparr>
        in SendDataToPlugin ''handle_BLOCK_INFO''
             (BlockInfo ''handle_BLOCK_INFO'' blockcollector)
             (log (Build ''handle_BLOCK_INFO'') w)
      else w)"

subsection \<open>\<open>applyTransaction\<close> (lines 121 to 220)\<close>

definition nil_dereference :: halt where
  "nil_dereference = Panic ''invalid memory address or nil pointer dereference''"

definition slice_bounds :: halt where
  "slice_bounds = Panic ''slice bounds out of range [:-1]''"

text \<open>Lines 127 to 132: the message runs, then the rollback an extension asked for.\<close>

definition callEnd ::
  "'s engine \<Rightarrow> Message \<Rightarrow> 's world
     \<Rightarrow> (ExecutionResult option \<times> string option) \<times> 's world" where
  "callEnd eng msg w =
     (case ApplyMessage eng msg (dzd w) (st w) of
        (out, d, s) \<Rightarrow>
          (let w1 = w\<lparr>dzd := d, st := s\<rparr> in
           (out,
            if BLOCKING_FLAG (dzd w1) = True then
              log (CallRevertToSnapshot (PLUGIN_SNAPSHOT_ID (dzd w1)))
                (w1\<lparr>st := RevertToSnapshot eng (PLUGIN_SNAPSHOT_ID (dzd w1)) (st w1)\<rparr>)
            else w1)))"

text \<open>
  Lines 133 to 141. \<open>result.UsedGas\<close> is read before the error is looked at, so a nil
  result panics here when a handler is bound.
\<close>

definition endCollect ::
  "ExecutionResult option \<Rightarrow> Transaction \<Rightarrow> 's world \<Rightarrow> (halt + TransCollector) \<times> 's world" where
  "endCollect result tx w =
     (let tcend = NewTransCollector in
      if GetOpcodeRegister ''EXTERNALINFOEND'' (TransferDataPlg w) then
        (case result of
           None \<Rightarrow> (Inl nil_dereference, log (Build ''EXTERNALINFOEND'') w)
         | Some res \<Rightarrow>
             (Inr (tcend\<lparr>tc_Op := ''EXTERNALINFOEND'', tc_TxHash := tx_Hash tx,
                         tc_GasUsed := UsedGas res, tc_CallLayer := 1\<rparr>),
              log (Build ''EXTERNALINFOEND'') w))
      else (Inr tcend, w))"

text \<open>Lines 144 to 152: the hook on the error path.\<close>

definition errSend :: "TransCollector \<Rightarrow> 's world \<Rightarrow> 's world" where
  "errSend tcend w =
     (if GetOpcodeRegister ''EXTERNALINFOEND'' (TransferDataPlg w) then
        SendDataToPlugin ''EXTERNALINFOEND''
          (TransInfo ''EXTERNALINFOEND'' (tcend\<lparr>tc_IsSuccess := False\<rparr>))
          (log (Build ''EXTERNALINFOEND'') w)
      else w)"

text \<open>Lines 175 to 190: the creation address, and the hook's creation record.\<close>

definition createInfo ::
  "'s engine \<Rightarrow> Message \<Rightarrow> Transaction \<Rightarrow> Receipt \<Rightarrow> TransCollector \<Rightarrow> 's world
     \<Rightarrow> Receipt \<times> TransCollector \<times> 's world" where
  "createInfo eng msg tx receipt tcend w =
     (if msg_To msg = None then
        let addr = CreateAddress eng (msg_From msg) (tx_Nonce tx);
            receipt1 = receipt\<lparr>r_ContractAddress := Some addr\<rparr>
        in if GetOpcodeRegister ''EXTERNALINFOEND'' (TransferDataPlg w) then
             let createcollector = NewCreateCollector\<lparr>
                   cr_ContractAddr := addr, cr_ContractDeployCode := msg_Data msg\<rparr>;
                 createcollector1 =
                   (if Exist eng (st w) addr
                    then createcollector\<lparr>cr_ContractRuntimeCode := GetCode eng (st w) addr\<rparr>
                    else createcollector)
             in (receipt1,
                 tcend\<lparr>tc_CallType := ''CREATE'', tc_To := addr,
                        tc_CreateInfo := createcollector1\<rparr>,
                 log (Build ''EXTERNALINFOEND'') w)
           else (receipt1, tcend, w)
      else (receipt, tcend, w))"

text \<open>Lines 200 to 210: the hook after a message that returned no error.\<close>

definition endSend :: "ExecutionResult \<Rightarrow> TransCollector \<Rightarrow> 's world \<Rightarrow> 's world" where
  "endSend res tcend w =
     (if \<not> Failed res then
        (if GetOpcodeRegister ''EXTERNALINFOEND'' (TransferDataPlg w) then
           SendDataToPlugin ''EXTERNALINFOEND''
             (TransInfo ''EXTERNALINFOEND'' (tcend\<lparr>tc_IsSuccess := True\<rparr>))
             (log (Build ''EXTERNALINFOEND'') w)
         else w)
      else
        (if GetOpcodeRegister ''EXTERNALINFOEND'' (TransferDataPlg w) then
           SendDataToPlugin ''EXTERNALINFOEND''
             (TransInfo ''EXTERNALINFOEND'' (tcend\<lparr>tc_IsSuccess := False\<rparr>))
             (log (Build ''EXTERNALINFOEND'') w)
         else w))"

text \<open>
  Line 212: \<open>CALL_STACK = CALL_STACK[:len(CALL_STACK)-1]\<close>. On an empty stack the upper
  bound is \<open>-1\<close> and Go panics.
\<close>

definition popFrame :: "'s world \<Rightarrow> halt + 's world" where
  "popFrame w =
     (if int (length (CALL_STACK (dzd w))) - 1 < 0 then Inl slice_bounds
      else Inr (w\<lparr>dzd := (dzd w)\<lparr>CALL_STACK :=
                 take (nat (int (length (CALL_STACK (dzd w))) - 1)) (CALL_STACK (dzd w))\<rparr>\<rparr>))"

text \<open>Lines 214 to 217: the terminal event and the stop of the dispatcher.\<close>

definition txEnd :: "'s world \<Rightarrow> 's world" where
  "txEnd w =
     (if GetOpcodeRegister ''TXEND'' (TransferDataPlg w) then
        (let w1 = SendDataToPlugin ''TXEND'' (Flag ''TXEND'') (log (Build ''TXEND'') w)
         in log CallStop (w1\<lparr>TransferDataPlg := Stop (TransferDataPlg w1)\<rparr>))
      else w)"

text \<open>Lines 133 to 219: what follows the message and the rollback.\<close>

definition endOfCall ::
  "'s engine \<Rightarrow> Message \<Rightarrow> int \<Rightarrow> string \<Rightarrow> Transaction
     \<Rightarrow> ExecutionResult option \<Rightarrow> string option \<Rightarrow> 's world \<Rightarrow> Receipt outcome \<times> 's world" where
  "endOfCall eng msg blockNumber blockHash tx result err w1 =
     (case endCollect result tx w1 of
        (Inl h, w2) \<Rightarrow> (Halted h, w2)
      | (Inr tcend, w2) \<Rightarrow>
          (case err of
             Some e \<Rightarrow> (Failure e, errSend tcend w2)
           | None \<Rightarrow>
               (case result of
                  None \<Rightarrow> (Halted nil_dereference, w2)
                | Some res \<Rightarrow>
                    (case FinaliseOrRoot eng blockNumber (st w2) of
                       (root, s3) \<Rightarrow>
                         (let w3 = w2\<lparr>st := s3, usedGas := usedGas w2 + UsedGas res\<rparr>;
                              receipt = \<lparr>r_Type = tx_Type tx, r_PostState = root,
                                r_CumulativeGasUsed = usedGas w3,
                                r_Status = (if Failed res then ReceiptStatusFailed
                                            else ReceiptStatusSuccessful),
                                r_TxHash = tx_Hash tx, r_GasUsed = UsedGas res,
                                r_ContractAddress = None, r_BlockHash = [],
                                r_BlockNumber = 0, r_TransactionIndex = 0\<rparr>
                          in case createInfo eng msg tx receipt tcend w3 of
                               (receipt1, tcend1, w4) \<Rightarrow>
                                 (let receipt2 = receipt1\<lparr>r_BlockHash := blockHash,
                                        r_BlockNumber := blockNumber,
                                        r_TransactionIndex := TxIndex eng (st w4)\<rparr>;
                                      w5 = endSend res tcend1 w4
                                  in case popFrame w5 of
                                       Inl h \<Rightarrow> (Halted h, w5)
                                     | Inr w6 \<Rightarrow> (Done receipt2, txEnd w6)))))))"

definition applyTransaction ::
  "'s engine \<Rightarrow> Message \<Rightarrow> int \<Rightarrow> string \<Rightarrow> Transaction \<Rightarrow> 's world
     \<Rightarrow> Receipt outcome \<times> 's world" where
  "applyTransaction eng msg blockNumber blockHash tx w =
     (case callEnd eng msg w of
        ((result, err), w1) \<Rightarrow> endOfCall eng msg blockNumber blockHash tx result err w1)"

subsection \<open>\<open>ApplyTransaction\<close> (lines 226 to 306)\<close>

text \<open>Lines 239 to 248: a pending request to register the extension at \<open>dan.RegPath\<close>.\<close>

definition drainRegister :: "loader_env \<Rightarrow> 's world \<Rightarrow> halt option \<times> 's world" where
  "drainRegister env w =
     (if IsReg (dan w) then
        (let w1 = log (CallRegisterPlugin (RegPath (dan w))) w in
         case RegisterPlugin env (TransferDataPlg w) (RegPath (dan w)) of
           Inl h \<Rightarrow> (Some h, w1)
         | Inr (b, manage) \<Rightarrow>
             (None, w1\<lparr>TransferDataPlg := manage,
                       dan := (dan w)\<lparr>RegPath := Clear (dan w), IsReg := False\<rparr>\<rparr>))
      else (None, w))"

text \<open>
  Lines 250 to 254: a pending request to unregister. \<open>UnRegisterPlg()\<close> takes no argument
  in the source; the owner it removes is the pending name \<open>dan.UnPlg\<close>.
\<close>

definition drainUnregister :: "'s world \<Rightarrow> 's world" where
  "drainUnregister w =
     (if IsUn (dan w) then
        (log CallUnRegisterPlg w)\<lparr>TransferDataPlg := UnRegisterPlg (UnPlg (dan w)) (TransferDataPlg w),
                                   dan := (dan w)\<lparr>IsUn := False, UnPlg := Clear (dan w)\<rparr>\<rparr>
      else w)"

definition drainPending :: "loader_env \<Rightarrow> 's world \<Rightarrow> halt option \<times> 's world" where
  "drainPending env w =
     (case drainRegister env w of
        (Some h, w1) \<Rightarrow> (Some h, w1)
      | (None, w1) \<Rightarrow> (None, drainUnregister w1))"

text \<open>Lines 256 to 269: the reset of the \<open>dzd\<close> variables and the push of the first frame.\<close>

definition txStartReset :: "Message \<Rightarrow> Transaction \<Rightarrow> dzd_vars \<Rightarrow> dzd_vars" where
  "txStartReset msg tx d =
     (let d0 = d\<lparr>CALL_LAYER := 0, CALL_STACK := [], ALL_STACK := [], EXTERNAL_FLAG := True,
                  BLOCKING_FLAG := False, PLUGIN_SNAPSHOT_ID := 0, CALLVALID_MAP := Map.empty,
                  TxHash := tx_Hash tx\<rparr>
      in case msg_To msg of
           None \<Rightarrow> d0
         | Some to \<Rightarrow>
             (let d1 = d0\<lparr>CALL_LAYER := CALL_LAYER d0 + 1\<rparr>
              in d1\<lparr>CALL_STACK := CALL_STACK d1 @ [to @ ''#'' @ Itoa (CALL_LAYER d1)],
                     ALL_STACK := ALL_STACK d1 @ [to]\<rparr>))"

text \<open>Lines 271 to 302: the transaction-start and external-info-start hooks.\<close>

definition txStartHook :: "'s world \<Rightarrow> 's world" where
  "txStartHook w =
     (if GetOpcodeRegister ''TXSTART'' (TransferDataPlg w) then
        SendDataToPlugin ''TXSTART'' (Flag ''TXSTART'') (log (Build ''TXSTART'') w)
      else w)"

definition externalInfoStartHook ::
  "'s engine \<Rightarrow> Header \<Rightarrow> Message \<Rightarrow> Transaction \<Rightarrow> 's world \<Rightarrow> 's world" where
  "externalInfoStartHook eng header msg tx w =
     (let tcstart = NewTransCollector in
      if GetOpcodeRegister ''EXTERNALINFOSTART'' (TransferDataPlg w) then
        let tcstart1 = tcstart\<lparr>tc_Op := ''EXTERNALINFOSTART'', tc_TxHash := tx_Hash tx,
              tc_BlockNumber := Itoa (h_Number header),
              tc_BlockTime := Itoa (uint (h_Time header)),
              tc_From := msg_From msg, tc_Value := Itoa (msg_Value msg),
              tc_GasPrice := Itoa (msg_GasPrice msg), tc_GasLimit := msg_Gas msg,
              tc_Nonce := tx_Nonce tx, tc_CallLayer := 1\<rparr>;
            tcstart2 =
              (case msg_To msg of
                 None \<Rightarrow> tcstart1
               | Some to \<Rightarrow>
                   (let callcollector = NewCallCollector;
                        callcollector1 =
                          (if Exist eng (st w) to
                           then callcollector\<lparr>cc_ContractCode := GetCode eng (st w) to\<rparr>
                           else callcollector);
                        callcollector2 = callcollector1\<lparr>cc_InputData := msg_Data msg\<rparr>
                    in tcstart1\<lparr>tc_CallType := ''CALL'', tc_To := to,
                                 tc_CallInfo := callcollector2\<rparr>))
        in SendDataToPlugin ''EXTERNALINFOSTART'' (TransInfo ''EXTERNALINFOSTART'' tcstart2)
             (log (Build ''EXTERNALINFOSTART'') w)
      else w)"

text \<open>Lines 256 to 305: everything after the pending requests were drained.\<close>

definition txBody ::
  "'s engine \<Rightarrow> Header \<Rightarrow> Message \<Rightarrow> Transaction \<Rightarrow> 's world \<Rightarrow> Receipt outcome \<times> 's world" where
  "txBody eng header msg tx w =
     applyTransaction eng msg (h_Number header) (h_Hash header) tx
       (externalInfoStartHook eng header msg tx
          (txStartHook (w\<lparr>dzd := txStartReset msg tx (dzd w)\<rparr>)))"

definition ApplyTransaction ::
  "loader_env \<Rightarrow> 's engine \<Rightarrow> Header \<Rightarrow> Transaction \<Rightarrow> 's world
     \<Rightarrow> Receipt outcome \<times> 's world" where
  "ApplyTransaction env eng header tx w =
     (case tx_AsMessage tx of
        Inl e \<Rightarrow> (Failure e, w)
      | Inr msg \<Rightarrow>
          (let w1 = log CallStart
                      (w\<lparr>st := SetTxStart eng True (st w), TransferDataPlg := Start (TransferDataPlg w)\<rparr>)
           in case drainPending env w1 of
                (Some h, w2) \<Rightarrow> (Halted h, w2)
              | (None, w2) \<Rightarrow> txBody eng header msg tx w2))"

subsection \<open>\<open>Process\<close> (lines 64 to 119)\<close>

definition could_not_apply :: "nat \<Rightarrow> Transaction \<Rightarrow> string \<Rightarrow> string" where
  "could_not_apply i tx e =
     ''could not apply tx '' @ Itoa (int i) @ '' ['' @ tx_Hash tx @ '']: '' @ e"

fun process_txs ::
  "'s engine \<Rightarrow> Header \<Rightarrow> nat \<Rightarrow> Transaction list \<Rightarrow> Receipt list \<Rightarrow> 's world
     \<Rightarrow> Receipt list outcome \<times> 's world" where
  "process_txs eng header i [] receipts w = (Done receipts, w)"
| "process_txs eng header i (tx # txs) receipts w =
     (case tx_AsMessage tx of
        Inl e \<Rightarrow> (Failure (could_not_apply i tx e), w)
      | Inr msg \<Rightarrow>
          (case applyTransaction eng msg (h_Number header) (h_Hash header) tx
                  (log (CallPrepare (tx_Hash tx) i)
                     (w\<lparr>st := Prepare eng (tx_Hash tx) i (st w)\<rparr>)) of
             (Halted h, w1) \<Rightarrow> (Halted h, w1)
           | (Failure e, w1) \<Rightarrow> (Failure (could_not_apply i tx e), w1)
           | (Done receipt, w1) \<Rightarrow>
               process_txs eng header (Suc i) txs (receipts @ [receipt]) w1))"

definition Process ::
  "'s engine \<Rightarrow> Block \<Rightarrow> 's world \<Rightarrow> (Receipt list \<times> 64 word) outcome \<times> 's world" where
  "Process eng block w =
     (let header = b_Header block;
          w0 = w\<lparr>usedGas := 0, st := ApplyDAOHardFork eng (h_Number header) (st w)\<rparr>;
          w1 = blockInfoHook header w0
      in case process_txs eng header 0 (b_Transactions block) [] w1 of
           (Halted h, w2) \<Rightarrow> (Halted h, w2)
         | (Failure e, w2) \<Rightarrow> (Failure e, w2)
         | (Done receipts, w2) \<Rightarrow>
             (Done (receipts, usedGas w2), w2\<lparr>st := Finalize eng (st w2)\<rparr>))"

section \<open>Vocabulary of the properties\<close>

text \<open>The handler bound to an event name, if any.\<close>

definition handler_of :: "PluginManages \<Rightarrow> string \<Rightarrow> handler option" where
  "handler_of manage name =
     (case registry manage name of None \<Rightarrow> None | Some m \<Rightarrow> m_SendFunc m)"

text \<open>What the processor did between two worlds: the actions appended to the trace.\<close>

definition emitted :: "'s world \<Rightarrow> 's world \<Rightarrow> action list" where
  "emitted w w' = drop (length (trace w)) (trace w')"

text \<open>An action concerns an event name when it builds its payload or invokes its handler.\<close>

fun about :: "string \<Rightarrow> action \<Rightarrow> bool" where
  "about n (Build m) = (m = n)"
| "about n (Invoke m p) = (m = n)"
| "about n a = False"

fun is_revert :: "action \<Rightarrow> bool" where
  "is_revert (CallRevertToSnapshot i) = True"
| "is_revert a = False"

text \<open>
  The actions a stretch of the processor may emit: hook actions for the event names in
  \<open>ns\<close> that are registered, the stop of the dispatcher with the terminal event, reverts
  when \<open>rv\<close> holds, and the per-transaction prepare of \<open>Process\<close>.
\<close>

definition allowed ::
  "string list \<Rightarrow> bool \<Rightarrow> (string \<rightharpoonup> MonitorType) \<Rightarrow> action \<Rightarrow> bool" where
  "allowed ns rv reg a =
     (case a of
        Build n \<Rightarrow> n \<in> set ns \<and> reg n \<noteq> None
      | Invoke n p \<Rightarrow> n \<in> set ns \<and> reg n \<noteq> None
      | CallStop \<Rightarrow> ''TXEND'' \<in> set ns \<and> reg ''TXEND'' \<noteq> None
      | CallRevertToSnapshot i \<Rightarrow> rv
      | CallPrepare h i \<Rightarrow> True
      | _ \<Rightarrow> False)"

text \<open>
  \<open>extends P w w'\<close>: from \<open>w\<close> to \<open>w'\<close> the registry and the pending requests are
  untouched and the trace grew by actions that all satisfy \<open>P\<close>.
\<close>

definition extends :: "(action \<Rightarrow> bool) \<Rightarrow> 's world \<Rightarrow> 's world \<Rightarrow> bool" where
  "extends P w w' =
     (registry (TransferDataPlg w') = registry (TransferDataPlg w) \<and> dan w' = dan w \<and>
      take (length (trace w)) (trace w') = trace w \<and> list_all P (emitted w w'))"

text \<open>No bound handler changes the part \<open>g\<close> of the \<open>dzd\<close> variables.\<close>

definition handlers_keep :: "(dzd_vars \<Rightarrow> 'a) \<Rightarrow> PluginManages \<Rightarrow> bool" where
  "handlers_keep g manage =
     (\<forall>n m f p d. registry manage n = Some m \<longrightarrow> m_SendFunc m = Some f \<longrightarrow> g (f p d) = g d)"

text \<open>The binding that \<open>RegisterPlugin\<close> builds for an opcode of an extension.\<close>

definition binding :: "string \<Rightarrow> string \<Rightarrow> handler \<Rightarrow> MonitorType" where
  "binding pname opcode f = \<lparr>m_PluginName = pname, m_Logger = pname, m_SendFunc = Some f,
     m_Opcode = opcode, m_IAL_Option = opcode\<rparr>"

section \<open>Concrete scenarios\<close>

text \<open>A handler that only looks, and one that asks for a rollback to snapshot 7.\<close>

definition watching :: handler where
  "watching p d = d"

definition blocking :: handler where
  "blocking p d = d\<lparr>BLOCKING_FLAG := True, PLUGIN_SNAPSHOT_ID := 7\<rparr>"

definition empty_manage :: PluginManages where
  "empty_manage = \<lparr>registry = Map.empty, running = False\<rparr>"

text \<open>
  An environment with at most one artifact, at \<open>/p.so\<close>, whose \<open>Register\<close> returns the
  bytes \<open>[1]\<close>, which decode to the given descriptor, if any.
\<close>

definition one_artifact :: "plugin option \<Rightarrow> RegisterInfo option \<Rightarrow> loader_env" where
  "one_artifact pl info =
     \<lparr>plugin_Open = (\<lambda>path. if path = ''/p.so'' then pl else None),
      json_Unmarshal = (\<lambda>bs. if bs = [1] then info else None)\<rparr>"

definition demo_info :: RegisterInfo where
  "demo_info = \<lparr>PluginName = ''demo'',
     OpCode = [(''handle_BLOCK_INFO'', ''OnBlock''), (''TXEND'', ''OnEnd'')]\<rparr>"

definition demo_plugin :: plugin where
  "demo_plugin = [''Register'' \<mapsto> RegisterFn [1], ''OnBlock'' \<mapsto> HandlerFn watching,
     ''OnEnd'' \<mapsto> HandlerFn blocking]"

text \<open>
  An engine whose message execution succeeds with 21000 gas and leaves the \<open>dzd\<close>
  variables alone, and one that rejects every message before running it.
\<close>

definition quiet_engine :: "unit engine" where
  "quiet_engine =
     \<lparr>ApplyMessage = (\<lambda>msg d s.
        ((Some \<lparr>UsedGas = 21000, Err = None, ReturnData = []\<rparr>, None), d, s)),
      RevertToSnapshot = (\<lambda>i s. s), Exist = (\<lambda>s a. False), GetCode = (\<lambda>s a. []),
      FinaliseOrRoot = (\<lambda>n s. ([], s)), CreateAddress = (\<lambda>a n. ''0xC0''),
      TxIndex = (\<lambda>s. 0), SetTxStart = (\<lambda>b s. s), ApplyDAOHardFork = (\<lambda>n s. s),
      Prepare = (\<lambda>h i s. s), Finalize = (\<lambda>s. s)\<rparr>"

definition rejecting_engine :: "unit engine" where
  "rejecting_engine =
     quiet_engine\<lparr>ApplyMessage := (\<lambda>msg d s. ((None, Some ''nonce too low''), d, s))\<rparr>"

definition call_msg :: Message where
  "call_msg = \<lparr>msg_To = Some ''0xA'', msg_From = ''0xF'', msg_Value = 0, msg_GasPrice = 1,
     msg_Gas = 21000, msg_Data = []\<rparr>"

definition create_msg :: Message where
  "create_msg = call_msg\<lparr>msg_To := None\<rparr>"

definition call_tx :: Transaction where
  "call_tx = \<lparr>tx_Hash = ''0x1'', tx_Nonce = 0, tx_Type = 0, tx_AsMessage = Inr call_msg\<rparr>"

definition create_tx :: Transaction where
  "create_tx = \<lparr>tx_Hash = ''0x2'', tx_Nonce = 1, tx_Type = 0, tx_AsMessage = Inr create_msg\<rparr>"

definition header100 :: Header where
  "header100 = \<lparr>h_ParentHash = ''0x99'', h_UncleHash = ''0x0'', h_Coinbase = ''0xB'',
     h_Root = ''0x0'', h_TxHash = ''0x0'', h_ReceiptHash = ''0x0'', h_Difficulty = 2,
     h_Number = 100, h_GasLimit = 30000000, h_GasUsed = 21000, h_Time = 1700000000,
     h_Extra = [], h_MixDigest = ''0x0'', h_Nonce = 0, h_Hash = ''0x100''\<rparr>"

definition zero_dzd :: dzd_vars where
  "zero_dzd = \<lparr>CALL_LAYER = 0, CALL_STACK = [], ALL_STACK = [], EXTERNAL_FLAG = False,
     BLOCKING_FLAG = False, PLUGIN_SNAPSHOT_ID = 0, CALLVALID_MAP = Map.empty, TxHash = []\<rparr>"

definition idle_dan :: dan_vars where
  "idle_dan = \<lparr>IsReg = False, RegPath = [], IsUn = False, UnPlg = [], Clear = []\<rparr>"

definition world_of :: "dzd_vars \<Rightarrow> dan_vars \<Rightarrow> PluginManages \<Rightarrow> unit world" where
  "world_of d a m = \<lparr>dzd = d, dan = a, TransferDataPlg = m, st = (), usedGas = 0, trace = []\<rparr>"

definition block100 :: Block where
  "block100 = \<lparr>b_Header = header100, b_Transactions = [call_tx]\<rparr>"

text \<open>A registry in which one extension binds the same handler to each of the names.\<close>

definition bind_all :: "string list \<Rightarrow> handler \<Rightarrow> PluginManages" where
  "bind_all names f = fold (\<lambda>n. RegisterOpcode n (binding ''demo'' n f)) names empty_manage"



text \<open>
  The \<open>dzd\<close> variables after the start of a call transaction during which an extension
  asked for a rollback to snapshot 7.
\<close>

definition flagged_dzd :: dzd_vars where
  "flagged_dzd = (txStartReset call_msg call_tx zero_dzd)
                   \<lparr>BLOCKING_FLAG := True, PLUGIN_SNAPSHOT_ID := 7\<rparr>"

section \<open>Properties of the loader\<close>

lemma register_loop_halts:
  "(opc, sf) \<in> set ops \<Longrightarrow> \<forall>f. pl sf \<noteq> Some (HandlerFn f)
     \<Longrightarrow> \<exists>h. register_loop pl pname ops manage = Inl h"
  by (induction ops arbitrary: manage) (auto split: option.splits symbol.splits)

lemma register_loop_ok:
  "\<forall>(opc, sf) \<in> set ops. \<exists>f. pl sf = Some (HandlerFn f) \<Longrightarrow>
   \<exists>manage'. register_loop pl pname ops manage = Inr manage' \<and>
     running manage' = running manage \<and>
     (\<forall>k. k \<notin> fst ` set ops \<longrightarrow> registry manage' k = registry manage k) \<and>
     (distinct (map fst ops) \<longrightarrow>
        (\<forall>(opc, sf) \<in> set ops. \<exists>f. pl sf = Some (HandlerFn f) \<and>
            registry manage' opc = Some (binding pname opc f)))"
proof (induction ops arbitrary: manage)
  case Nil
  then show ?case by simp
next
  case (Cons a ops)
  obtain opc sf where a: "a = (opc, sf)" by (cases a)
  from Cons.prems a obtain f where f: "pl sf = Some (HandlerFn f)" by auto
  let ?m = "RegisterOpcode opc (binding pname opc f) manage"
  from Cons.prems have "\<forall>(opc, sf) \<in> set ops. \<exists>f. pl sf = Some (HandlerFn f)" by simp
  from Cons.IH[OF this, of ?m] obtain manage' where
    m: "register_loop pl pname ops ?m = Inr manage'"
       "running manage' = running ?m"
       "\<forall>k. k \<notin> fst ` set ops \<longrightarrow> registry manage' k = registry ?m k"
       "distinct (map fst ops) \<longrightarrow>
        (\<forall>(opc, sf) \<in> set ops. \<exists>f. pl sf = Some (HandlerFn f) \<and>
            registry manage' opc = Some (binding pname opc f))"
    by blast
  have step: "register_loop pl pname (a # ops) manage = Inr manage'"
    using m(1) f a
    by (simp add: binding_def SetLogger_def SetPluginName_def zero_monitor_def
        SetIAL_Optinon_def SetOpcode_def SetSendFunc_def)
  show ?case
    using step m(2-4) a f
    by (auto simp: RegisterOpcode_def)
qed

text \<open>
  Claim C4. Every load-time contract violation makes \<open>RegisterPlugin\<close> terminate the
  process, by \<open>os.Exit\<close> or by a panic, instead of returning: the artifact does not open,
  the \<open>Register\<close> export is missing, its result does not decode, a declared handler symbol
  is missing, or a declared handler symbol is not a handler.
\<close>

theorem RegisterPlugin_load_violation_terminates:
  assumes "plugin_Open env path = None
     \<or> (\<exists>pl. plugin_Open env path = Some pl \<and>
          (pl ''Register'' = None
           \<or> (\<exists>bs. pl ''Register'' = Some (RegisterFn bs) \<and>
                (json_Unmarshal env bs = None
                 \<or> (\<exists>info opc sf. json_Unmarshal env bs = Some info \<and>
                       (opc, sf) \<in> set (OpCode info) \<and>
                       (pl sf = None
                        \<or> (\<exists>sym. pl sf = Some sym \<and> (\<forall>f. sym \<noteq> HandlerFn f))))))))"
  shows "\<exists>h. RegisterPlugin env manage path = Inl h"
proof -
  consider (noopen) "plugin_Open env path = None"
    | (noreg) pl where "plugin_Open env path = Some pl" "pl ''Register'' = None"
    | (nodec) pl bs where "plugin_Open env path = Some pl"
        "pl ''Register'' = Some (RegisterFn bs)" "json_Unmarshal env bs = None"
    | (nohandler) pl bs info opc sf where "plugin_Open env path = Some pl"
        "pl ''Register'' = Some (RegisterFn bs)" "json_Unmarshal env bs = Some info"
        "(opc, sf) \<in> set (OpCode info)" "\<forall>f. pl sf \<noteq> Some (HandlerFn f)"
    using assms by fastforce
  then show ?thesis
  proof cases
    case noopen
    then show ?thesis by (simp add: RegisterPlugin_def)
  next
    case noreg
    then show ?thesis by (simp add: RegisterPlugin_def)
  next
    case nodec
    then show ?thesis by (simp add: RegisterPlugin_def)
  next
    case nohandler
    from register_loop_halts[of opc sf "OpCode info" pl, OF nohandler(4,5)] obtain h where
      "register_loop pl (PluginName info) (OpCode info) manage = Inl h" by blast
    with nohandler(1-3) show ?thesis by (simp add: RegisterPlugin_def)
  qed
qed

theorem RegisterPlugin_load_violation_terminates_witness:
  "(\<exists>h. RegisterPlugin (one_artifact None None) empty_manage ''/p.so'' = Inl h)
   \<and> (\<exists>h. RegisterPlugin (one_artifact (Some Map.empty) None) empty_manage ''/p.so'' = Inl h)
   \<and> (\<exists>h. RegisterPlugin (one_artifact (Some demo_plugin) None) empty_manage ''/p.so'' = Inl h)
   \<and> (\<exists>h. RegisterPlugin
            (one_artifact (Some [''Register'' \<mapsto> RegisterFn [1]]) (Some demo_info))
            empty_manage ''/p.so'' = Inl h)
   \<and> (\<exists>h. RegisterPlugin
            (one_artifact (Some (demo_plugin(''OnEnd'' \<mapsto> OtherSym))) (Some demo_info))
            empty_manage ''/p.so'' = Inl h)"
proof (intro conjI)
  show "\<exists>h. RegisterPlugin (one_artifact None None) empty_manage ''/p.so'' = Inl h"
    by (rule RegisterPlugin_load_violation_terminates) (simp add: one_artifact_def)
  show "\<exists>h. RegisterPlugin (one_artifact (Some Map.empty) None) empty_manage ''/p.so'' = Inl h"
    by (rule RegisterPlugin_load_violation_terminates) (simp add: one_artifact_def)
  show "\<exists>h. RegisterPlugin (one_artifact (Some demo_plugin) None) empty_manage ''/p.so'' = Inl h"
    by (rule RegisterPlugin_load_violation_terminates)
       (simp add: one_artifact_def demo_plugin_def)
  have missing: "(''TXEND'', ''OnEnd'') \<in> set (OpCode demo_info)"
    by (simp add: demo_info_def)
  let ?pl = "[''Register'' \<mapsto> RegisterFn [1]]"
  have "json_Unmarshal (one_artifact (Some ?pl) (Some demo_info)) [1] = Some demo_info
        \<and> (''TXEND'', ''OnEnd'') \<in> set (OpCode demo_info) \<and> ?pl ''OnEnd'' = None"
    using missing by (simp add: one_artifact_def)
  then show "\<exists>h. RegisterPlugin (one_artifact (Some ?pl) (Some demo_info))
            empty_manage ''/p.so'' = Inl h"
    by (intro RegisterPlugin_load_violation_terminates disjI2 exI[of _ ?pl] exI[of _ "[1]"]
          exI[of _ demo_info] exI[of _ "''TXEND''"] exI[of _ "''OnEnd''"] conjI disjI1)
       (simp_all add: one_artifact_def)
  let ?pl = "demo_plugin(''OnEnd'' \<mapsto> OtherSym)"
  have "json_Unmarshal (one_artifact (Some ?pl) (Some demo_info)) [1] = Some demo_info
        \<and> ?pl ''OnEnd'' = Some OtherSym"
    by (simp add: one_artifact_def)
  then show "\<exists>h. RegisterPlugin (one_artifact (Some ?pl) (Some demo_info))
            empty_manage ''/p.so'' = Inl h"
    using missing
    by (intro RegisterPlugin_load_violation_terminates disjI2 exI[of _ ?pl] exI[of _ "[1]"]
          exI[of _ demo_info] exI[of _ "''TXEND''"] exI[of _ "''OnEnd''"] exI[of _ OtherSym] conjI)
       (simp_all add: one_artifact_def demo_plugin_def)
qed

text \<open>
  Claim C8. For a valid descriptor whose option map declares N distinct opcodes,
  \<open>RegisterPlugin\<close> returns and has put exactly one binding under each declared event
  name, N in all, each holding the handler symbol the descriptor names for that event; a
  binding that was already present under such a name is overwritten, and no other name
  is touched.
\<close>

theorem RegisterPlugin_binds_declared:
  assumes "plugin_Open env path = Some pl"
    and "pl ''Register'' = Some (RegisterFn bs)"
    and "json_Unmarshal env bs = Some info"
    and "distinct (map fst (OpCode info))"
    and "\<forall>(opc, sf) \<in> set (OpCode info). \<exists>f. pl sf = Some (HandlerFn f)"
  shows "\<exists>manage'. RegisterPlugin env manage path = Inr (True, manage') \<and>
     (\<forall>(opc, sf) \<in> set (OpCode info). \<exists>f. pl sf = Some (HandlerFn f) \<and>
         registry manage' opc = Some (binding (PluginName info) opc f)) \<and>
     (\<forall>k. k \<notin> fst ` set (OpCode info) \<longrightarrow> registry manage' k = registry manage k) \<and>
     dom (registry manage') = dom (registry manage) \<union> fst ` set (OpCode info) \<and>
     card (fst ` set (OpCode info)) = length (OpCode info) \<and>
     (registry manage = Map.empty \<longrightarrow> card (dom (registry manage')) = length (OpCode info))"
proof -
  from register_loop_ok[OF assms(5), of "PluginName info" manage] assms(4)
  obtain manage' where
    m: "register_loop pl (PluginName info) (OpCode info) manage = Inr manage'"
       "\<forall>k. k \<notin> fst ` set (OpCode info) \<longrightarrow> registry manage' k = registry manage k"
       "\<forall>(opc, sf) \<in> set (OpCode info). \<exists>f. pl sf = Some (HandlerFn f) \<and>
            registry manage' opc = Some (binding (PluginName info) opc f)"
    by blast
  have run: "RegisterPlugin env manage path = Inr (True, manage')"
    using assms(1-3) m(1) by (simp add: RegisterPlugin_def)
  have dom_eq: "dom (registry manage') = dom (registry manage) \<union> fst ` set (OpCode info)"
  proof (rule set_eqI)
    fix k
    show "k \<in> dom (registry manage') \<longleftrightarrow> k \<in> dom (registry manage) \<union> fst ` set (OpCode info)"
    proof (cases "k \<in> fst ` set (OpCode info)")
      case True
      then obtain sf where "(k, sf) \<in> set (OpCode info)" by auto
      with m(3) have "registry manage' k \<noteq> None" by fastforce
      with True show ?thesis by auto
    next
      case False
      with m(2) show ?thesis by (auto simp: dom_def)
    qed
  qed
  have card_keys: "card (fst ` set (OpCode info)) = length (OpCode info)"
    using assms(4) by (metis distinct_card length_map set_map)
  show ?thesis
    using run m(2,3) dom_eq card_keys by auto
qed

theorem RegisterPlugin_binds_declared_witness:
  "\<exists>manage'. RegisterPlugin (one_artifact (Some demo_plugin) (Some demo_info))
        (RegisterOpcode ''TXEND'' (binding ''old'' ''TXEND'' watching) empty_manage) ''/p.so''
      = Inr (True, manage') \<and>
     registry manage' ''handle_BLOCK_INFO'' = Some (binding ''demo'' ''handle_BLOCK_INFO'' watching) \<and>
     registry manage' ''TXEND'' = Some (binding ''demo'' ''TXEND'' blocking) \<and>
     dom (registry manage') = {''handle_BLOCK_INFO'', ''TXEND''}"
proof -
  let ?env = "one_artifact (Some demo_plugin) (Some demo_info)"
  let ?m = "RegisterOpcode ''TXEND'' (binding ''old'' ''TXEND'' watching) empty_manage"
  have h1: "plugin_Open ?env ''/p.so'' = Some demo_plugin" by (simp add: one_artifact_def)
  have h2: "demo_plugin ''Register'' = Some (RegisterFn [1])" by (simp add: demo_plugin_def)
  have h3: "json_Unmarshal ?env [1] = Some demo_info" by (simp add: one_artifact_def)
  have h4: "distinct (map fst (OpCode demo_info))" by (simp add: demo_info_def)
  have h5: "\<forall>(opc, sf) \<in> set (OpCode demo_info). \<exists>f. demo_plugin sf = Some (HandlerFn f)"
    by (simp add: demo_info_def demo_plugin_def)
  show ?thesis
    using RegisterPlugin_binds_declared[OF h1 h2 h3 h4 h5, of ?m]
    apply (simp add: demo_info_def demo_plugin_def)
    apply (elim exE conjE)
    subgoal for manage'
      apply (rule exI[of _ manage'])
      apply (auto simp: RegisterOpcode_def empty_manage_def)
      done
    done
qed

section \<open>How the trace grows\<close>

lemma extendsI:
  "registry (TransferDataPlg w') = registry (TransferDataPlg w) \<Longrightarrow> dan w' = dan w \<Longrightarrow>
   trace w' = trace w @ new \<Longrightarrow> list_all P new \<Longrightarrow> extends P w w'"
  by (simp add: extends_def emitted_def)

lemma extendsD:
  "extends P w w' \<Longrightarrow> trace w' = trace w @ emitted w w'"
  unfolding extends_def emitted_def
  by (metis append_take_drop_id)

lemma extends_refl: "extends P w w"
  by (simp add: extends_def emitted_def)

lemma extends_trans:
  assumes "extends P w w'" "extends P w' w''"
  shows "extends P w w''"
proof -
  from assms have t1: "trace w' = trace w @ emitted w w'"
    and t2: "trace w'' = trace w' @ emitted w' w''"
    by (auto dest: extendsD)
  have "trace w'' = trace w @ (emitted w w' @ emitted w' w'')"
    using t1 t2 by simp
  moreover have "list_all P (emitted w w' @ emitted w' w'')"
    using assms by (simp add: extends_def)
  ultimately show ?thesis
    using assms
    by (intro extendsI[where new = "emitted w w' @ emitted w' w''"]) (auto simp: extends_def)
qed

lemma emitted_trans:
  "extends P w w' \<Longrightarrow> extends Q w' w'' \<Longrightarrow> emitted w w'' = emitted w w' @ emitted w' w''"
  by (metis (no_types, lifting) append.assoc append_eq_conv_conj emitted_def extendsD)

lemma extends_mono:
  "extends P w w' \<Longrightarrow> (\<And>a. P a \<Longrightarrow> Q a) \<Longrightarrow> extends Q w w'"
  by (auto simp: extends_def list_all_iff)

lemma allowed_mono:
  "allowed ns rv reg a \<Longrightarrow> set ns \<subseteq> set ms \<Longrightarrow> (rv \<Longrightarrow> rv') \<Longrightarrow> allowed ms rv' reg a"
  by (cases a) (auto simp: allowed_def)

lemma extends_allowed_mono:
  "extends (allowed ns rv reg) w w' \<Longrightarrow> set ns \<subseteq> set ms \<Longrightarrow> (rv \<Longrightarrow> rv')
     \<Longrightarrow> extends (allowed ms rv' reg) w w'"
  by (erule extends_mono) (rule allowed_mono)

lemma extends_reg:
  "extends P w w' \<Longrightarrow> registry (TransferDataPlg w') = registry (TransferDataPlg w)"
  by (simp add: extends_def)

lemma log_simps:
  "trace (log a w) = trace w @ [a]"
  "TransferDataPlg (log a w) = TransferDataPlg w"
  "dan (log a w) = dan w"
  "dzd (log a w) = dzd w"
  "st (log a w) = st w"
  "usedGas (log a w) = usedGas w"
  by (simp_all add: log_def)

lemma hook_trace:
  "trace (SendDataToPlugin n p (log (Build n) w)) =
     trace w @ Build n # (case handler_of (TransferDataPlg w) n of
                            None \<Rightarrow> [] | Some f \<Rightarrow> [Invoke n p])"
  by (simp add: SendDataToPlugin_def log_def handler_of_def split: option.splits)

lemma hook_same:
  "registry (TransferDataPlg (SendDataToPlugin n p (log a w))) = registry (TransferDataPlg w)"
  "TransferDataPlg (SendDataToPlugin n p (log a w)) = TransferDataPlg w"
  "dan (SendDataToPlugin n p (log a w)) = dan w"
  "st (SendDataToPlugin n p (log a w)) = st w"
  "usedGas (SendDataToPlugin n p (log a w)) = usedGas w"
  by (simp_all add: SendDataToPlugin_def log_def split: option.splits)

lemma hook_extends:
  "registry (TransferDataPlg w) n \<noteq> None \<Longrightarrow>
   extends (allowed [n] False (registry (TransferDataPlg w))) w
     (SendDataToPlugin n p (log (Build n) w))"
  by (rule extendsI[OF hook_same(1) hook_same(3) hook_trace])
     (auto simp: allowed_def split: option.splits)

lemma build_extends:
  "registry (TransferDataPlg w) n \<noteq> None \<Longrightarrow>
   extends (allowed [n] False (registry (TransferDataPlg w))) w (log (Build n) w)"
  by (rule extendsI[where new = "[Build n]"]) (auto simp: log_def allowed_def)

lemma blockInfoHook_extends:
  "extends (allowed [''handle_BLOCK_INFO''] False (registry (TransferDataPlg w))) w
     (blockInfoHook header w)"
  unfolding blockInfoHook_def Let_def
  by (auto simp: GetOpcodeRegister_def extends_refl intro!: hook_extends)

lemma txStartHook_extends:
  "extends (allowed [''TXSTART''] False (registry (TransferDataPlg w))) w (txStartHook w)"
  unfolding txStartHook_def
  by (auto simp: GetOpcodeRegister_def extends_refl intro!: hook_extends)

lemma externalInfoStartHook_extends:
  "extends (allowed [''EXTERNALINFOSTART''] False (registry (TransferDataPlg w))) w
     (externalInfoStartHook eng header msg tx w)"
  unfolding externalInfoStartHook_def Let_def
  by (auto simp: GetOpcodeRegister_def extends_refl intro!: hook_extends)

lemma errSend_extends:
  "extends (allowed [''EXTERNALINFOEND''] False (registry (TransferDataPlg w))) w
     (errSend tcend w)"
  unfolding errSend_def
  by (auto simp: GetOpcodeRegister_def extends_refl intro!: hook_extends)

lemma endSend_extends:
  "extends (allowed [''EXTERNALINFOEND''] False (registry (TransferDataPlg w))) w
     (endSend res tcend w)"
  unfolding endSend_def
  by (auto simp: GetOpcodeRegister_def extends_refl intro!: hook_extends)

lemma endCollect_extends:
  "endCollect result tx w = (x, w') \<Longrightarrow>
   extends (allowed [''EXTERNALINFOEND''] False (registry (TransferDataPlg w))) w w'"
  unfolding endCollect_def Let_def
  by (auto simp: GetOpcodeRegister_def extends_refl build_extends split: if_splits option.splits)

lemma createInfo_extends:
  "createInfo eng msg tx receipt tcend w = (r, t, w') \<Longrightarrow>
   extends (allowed [''EXTERNALINFOEND''] False (registry (TransferDataPlg w))) w w'"
  unfolding createInfo_def Let_def
  by (auto simp: GetOpcodeRegister_def extends_refl build_extends split: if_splits)

lemma popFrame_extends:
  "popFrame w = Inr w' \<Longrightarrow> extends P w w'"
  unfolding popFrame_def
  by (auto simp: extends_def emitted_def split: if_splits)

lemma txEnd_trace:
  "trace (txEnd w) = trace w @
     (if GetOpcodeRegister ''TXEND'' (TransferDataPlg w)
      then Build ''TXEND'' # (case handler_of (TransferDataPlg w) ''TXEND'' of
                                None \<Rightarrow> [] | Some f \<Rightarrow> [Invoke ''TXEND'' (Flag ''TXEND'')])
             @ [CallStop]
      else [])"
  by (simp add: txEnd_def Let_def hook_trace log_simps)

lemma txEnd_extends:
  "extends (allowed [''TXEND''] False (registry (TransferDataPlg w))) w (txEnd w)"
  by (rule extendsI[OF _ _ txEnd_trace])
     (auto simp: txEnd_def Let_def log_simps hook_same Stop_def allowed_def GetOpcodeRegister_def
           split: option.splits)

lemma callEnd_extends:
  "callEnd eng msg w = (out, w') \<Longrightarrow>
   extends (allowed [] True (registry (TransferDataPlg w))) w w'"
  unfolding callEnd_def Let_def
  by (auto simp: extends_def emitted_def log_def allowed_def split: prod.splits if_splits)

lemma endOfCall_cases:
  assumes "endOfCall eng msg bn bh tx result err w = (out, w')"
  obtains (collect_halt) h where "endCollect result tx w = (Inl h, w')" "out = Halted h"
  | (error) tcend w2 e where "endCollect result tx w = (Inr tcend, w2)" "err = Some e"
      "out = Failure e" "w' = errSend tcend w2"
  | (nil_result) tcend where "endCollect result tx w = (Inr tcend, w')" "err = None"
      "result = None" "out = Halted nil_dereference"
  | (pop_halt) tcend w2 res root s3 receipt receipt1 tcend1 w4 h where
      "endCollect result tx w = (Inr tcend, w2)" "err = None" "result = Some res"
      "FinaliseOrRoot eng bn (st w2) = (root, s3)"
      "createInfo eng msg tx receipt tcend (w2\<lparr>st := s3, usedGas := usedGas w2 + UsedGas res\<rparr>)
         = (receipt1, tcend1, w4)"
      "popFrame (endSend res tcend1 w4) = Inl h" "out = Halted h" "w' = endSend res tcend1 w4"
  | (completed) tcend w2 res root s3 receipt receipt1 tcend1 w4 w6 r where
      "endCollect result tx w = (Inr tcend, w2)" "err = None" "result = Some res"
      "FinaliseOrRoot eng bn (st w2) = (root, s3)"
      "createInfo eng msg tx receipt tcend (w2\<lparr>st := s3, usedGas := usedGas w2 + UsedGas res\<rparr>)
         = (receipt1, tcend1, w4)"
      "popFrame (endSend res tcend1 w4) = Inr w6" "out = Done r" "w' = txEnd w6"
  using assms unfolding endOfCall_def Let_def
  by (auto split: prod.splits sum.splits option.splits)


lemma extends_step:
  assumes "extends (allowed ms rv (registry (TransferDataPlg w))) w w1"
    and "extends (allowed ns rv1 (registry (TransferDataPlg w1))) w1 w2"
    and "set ns \<subseteq> set ms" and "rv1 \<Longrightarrow> rv"
  shows "extends (allowed ms rv (registry (TransferDataPlg w))) w w2"
proof -
  have "registry (TransferDataPlg w1) = registry (TransferDataPlg w)"
    using assms(1) by (rule extends_reg)
  with assms(2) have "extends (allowed ns rv1 (registry (TransferDataPlg w))) w1 w2" by simp
  then have "extends (allowed ms rv (registry (TransferDataPlg w))) w1 w2"
    using assms(3,4) by (rule extends_allowed_mono)
  with assms(1) show ?thesis by (rule extends_trans)
qed

lemma gas_extends:
  "extends P w (w\<lparr>st := s, usedGas := g\<rparr>)"
  by (simp add: extends_def emitted_def)

lemma endOfCall_extends:
  assumes "endOfCall eng msg bn bh tx result err w = (out, w')"
  shows "extends (allowed [''EXTERNALINFOEND'', ''TXEND''] False (registry (TransferDataPlg w))) w w'"
  using assms
proof (cases rule: endOfCall_cases)
  case (collect_halt h)
  show ?thesis
    by (rule extends_step[OF extends_refl endCollect_extends[OF collect_halt(1)]]) auto
next
  case (error tcend w2 e)
  have "extends (allowed [''EXTERNALINFOEND'', ''TXEND''] False (registry (TransferDataPlg w))) w w2"
    by (rule extends_step[OF extends_refl endCollect_extends[OF error(1)]]) auto
  then show ?thesis
    unfolding error(4) by (rule extends_step[OF _ errSend_extends]) auto
next
  case (nil_result tcend)
  show ?thesis
    by (rule extends_step[OF extends_refl endCollect_extends[OF nil_result(1)]]) auto
next
  case (pop_halt tcend w2 res root s3 receipt receipt1 tcend1 w4 h)
  have "extends (allowed [''EXTERNALINFOEND'', ''TXEND''] False (registry (TransferDataPlg w))) w w2"
    by (rule extends_step[OF extends_refl endCollect_extends[OF pop_halt(1)]]) auto
  then have "extends (allowed [''EXTERNALINFOEND'', ''TXEND''] False (registry (TransferDataPlg w))) w
      (w2\<lparr>st := s3, usedGas := usedGas w2 + UsedGas res\<rparr>)"
    by (rule extends_step[OF _ gas_extends[where P = "allowed [] False _"]]) auto
  then have "extends (allowed [''EXTERNALINFOEND'', ''TXEND''] False (registry (TransferDataPlg w))) w w4"
    by (rule extends_step[OF _ createInfo_extends[OF pop_halt(5)]]) auto
  then show ?thesis
    unfolding pop_halt(8) by (rule extends_step[OF _ endSend_extends]) auto
next
  case (completed tcend w2 res root s3 receipt receipt1 tcend1 w4 w6 r)
  have "extends (allowed [''EXTERNALINFOEND'', ''TXEND''] False (registry (TransferDataPlg w))) w w2"
    by (rule extends_step[OF extends_refl endCollect_extends[OF completed(1)]]) auto
  then have "extends (allowed [''EXTERNALINFOEND'', ''TXEND''] False (registry (TransferDataPlg w))) w
      (w2\<lparr>st := s3, usedGas := usedGas w2 + UsedGas res\<rparr>)"
    by (rule extends_step[OF _ gas_extends[where P = "allowed [] False _"]]) auto
  then have "extends (allowed [''EXTERNALINFOEND'', ''TXEND''] False (registry (TransferDataPlg w))) w w4"
    by (rule extends_step[OF _ createInfo_extends[OF completed(5)]]) auto
  then have "extends (allowed [''EXTERNALINFOEND'', ''TXEND''] False (registry (TransferDataPlg w))) w
      (endSend res tcend1 w4)"
    by (rule extends_step[OF _ endSend_extends]) auto
  then have "extends (allowed [''EXTERNALINFOEND'', ''TXEND''] False (registry (TransferDataPlg w))) w w6"
    by (rule extends_step[OF _ popFrame_extends[OF completed(6), where P = "allowed [] False _"]]) auto
  then show ?thesis
    unfolding completed(8) by (rule extends_step[OF _ txEnd_extends]) auto
qed

lemma applyTransaction_extends:
  assumes "applyTransaction eng msg bn bh tx w = (out, w')"
  shows "extends (allowed [''EXTERNALINFOEND'', ''TXEND''] True (registry (TransferDataPlg w))) w w'"
proof -
  obtain result err w1 where ce: "callEnd eng msg w = ((result, err), w1)"
    by (cases "callEnd eng msg w") auto
  have eo: "endOfCall eng msg bn bh tx result err w1 = (out, w')"
    using assms ce by (simp add: applyTransaction_def)
  have "extends (allowed [''EXTERNALINFOEND'', ''TXEND''] True (registry (TransferDataPlg w))) w w1"
    by (rule extends_step[OF extends_refl callEnd_extends[OF ce]]) auto
  then show ?thesis
    by (rule extends_step[OF _ endOfCall_extends[OF eo]]) auto
qed

lemma txBody_extends:
  assumes "txBody eng header msg tx w = (out, w')"
  shows "extends (allowed [''TXSTART'', ''EXTERNALINFOSTART'', ''EXTERNALINFOEND'', ''TXEND''] True
           (registry (TransferDataPlg w))) w w'"
proof -
  let ?P = "allowed [''TXSTART'', ''EXTERNALINFOSTART'', ''EXTERNALINFOEND'', ''TXEND''] True
           (registry (TransferDataPlg w))"
  let ?w0 = "w\<lparr>dzd := txStartReset msg tx (dzd w)\<rparr>"
  have "extends ?P w ?w0" by (simp add: extends_def emitted_def)
  then have "extends ?P w (txStartHook ?w0)"
    by (rule extends_step[OF _ txStartHook_extends]) auto
  then have "extends ?P w (externalInfoStartHook eng header msg tx (txStartHook ?w0))"
    by (rule extends_step[OF _ externalInfoStartHook_extends]) auto
  then show ?thesis
    by (rule extends_step[OF _ applyTransaction_extends[OF assms[unfolded txBody_def]]]) auto
qed

lemma process_txs_extends:
  "process_txs eng header i txs receipts w = (out, w') \<Longrightarrow>
   extends (allowed [''EXTERNALINFOEND'', ''TXEND''] True (registry (TransferDataPlg w))) w w'"
proof (induction txs arbitrary: i receipts w)
  case Nil
  then show ?case by (simp add: extends_refl)
next
  case (Cons tx txs)
  let ?P = "\<lambda>w. allowed [''EXTERNALINFOEND'', ''TXEND''] True (registry (TransferDataPlg w))"
  show ?case
  proof (cases "tx_AsMessage tx")
    case (Inl e)
    with Cons.prems show ?thesis by (simp add: extends_refl)
  next
    case (Inr msg)
    let ?w0 = "log (CallPrepare (tx_Hash tx) i) (w\<lparr>st := Prepare eng (tx_Hash tx) i (st w)\<rparr>)"
    obtain o1 w1 where at: "applyTransaction eng msg (h_Number header) (h_Hash header) tx ?w0 = (o1, w1)"
      by (cases "applyTransaction eng msg (h_Number header) (h_Hash header) tx ?w0")
    have "extends (?P w) w ?w0"
      by (rule extendsI[where new = "[CallPrepare (tx_Hash tx) i]"]) (simp_all add: log_def allowed_def)
    then have e1: "extends (?P w) w w1"
      by (rule extends_step[OF _ applyTransaction_extends[OF at]]) auto
    show ?thesis
    proof (cases o1)
      case (Halted h)
      with Cons.prems Inr at e1 show ?thesis by simp
    next
      case (Failure e)
      with Cons.prems Inr at e1 show ?thesis by simp
    next
      case (Done receipt)
      with Cons.prems Inr at have
        "process_txs eng header (Suc i) txs (receipts @ [receipt]) w1 = (out, w')" by simp
      from extends_step[OF e1 Cons.IH[OF this]] show ?thesis
        by simp
    qed
  qed
qed

section \<open>Properties of the hooks\<close>

lemma Process_extends:
  assumes "Process eng block w = (out, w')"
  shows "extends (allowed [''handle_BLOCK_INFO'', ''EXTERNALINFOEND'', ''TXEND''] True
           (registry (TransferDataPlg w))) w w'"
proof -
  let ?P = "allowed [''handle_BLOCK_INFO'', ''EXTERNALINFOEND'', ''TXEND''] True
           (registry (TransferDataPlg w))"
  let ?h = "b_Header block"
  let ?w0 = "w\<lparr>usedGas := 0, st := ApplyDAOHardFork eng (h_Number ?h) (st w)\<rparr>"
  obtain o2 w2 where pt: "process_txs eng ?h 0 (b_Transactions block) [] (blockInfoHook ?h ?w0) = (o2, w2)"
    by (cases "process_txs eng ?h 0 (b_Transactions block) [] (blockInfoHook ?h ?w0)")
  have "extends ?P w ?w0" by (simp add: extends_def emitted_def)
  then have "extends ?P w (blockInfoHook ?h ?w0)"
    by (rule extends_step[OF _ blockInfoHook_extends]) auto
  then have e2: "extends ?P w w2"
    by (rule extends_step[OF _ process_txs_extends[OF pt]]) auto
  then have e3: "extends ?P w (w2\<lparr>st := Finalize eng (st w2)\<rparr>)"
    by (simp add: extends_def emitted_def)
  show ?thesis
    using assms pt e2 e3
    by (cases o2) (auto simp: Process_def Let_def)
qed

lemma allowed_about:
  "allowed ns rv reg a \<Longrightarrow> about n a \<Longrightarrow> reg n \<noteq> None \<and> n \<in> set ns"
  by (cases a) (auto simp: allowed_def)

lemma extends_unbound:
  "extends (allowed ns rv (registry (TransferDataPlg w))) w w' \<Longrightarrow>
   registry (TransferDataPlg w) n = None \<or> n \<notin> set ns \<Longrightarrow>
   \<forall>a \<in> set (emitted w w'). \<not> about n a"
  by (auto simp: extends_def list_all_iff dest: allowed_about)

lemma drainUnregister_facts:
  "trace (drainUnregister w) = trace w @ (if IsUn (dan w) then [CallUnRegisterPlg] else [])"
  "registry (TransferDataPlg w) n = None \<Longrightarrow> registry (TransferDataPlg (drainUnregister w)) n = None"
  "IsUn (dan (drainUnregister w)) = False"
  "IsUn (dan w) \<Longrightarrow> UnPlg (dan (drainUnregister w)) = Clear (dan w)"
  "IsReg (dan (drainUnregister w)) = IsReg (dan w)"
  "RegPath (dan (drainUnregister w)) = RegPath (dan w)"
  "Clear (dan (drainUnregister w)) = Clear (dan w)"
  by (simp_all add: drainUnregister_def log_def UnRegisterPlg_def)

lemma emitted_append:
  "trace w1 = trace w @ xs \<Longrightarrow> trace w2 = trace w1 @ ys \<Longrightarrow> emitted w w2 = xs @ ys"
  by (simp add: emitted_def)

text \<open>
  Claim C2. Dispatching an event whose name has no handler bound in the registry is a
  no-op at every hook point (block-info, transaction-start, external-info-start,
  external-info-end, transaction-end): nothing that \<open>Process\<close>, \<open>ApplyTransaction\<close> or
  \<open>applyTransaction\<close> does builds a payload for that name or invokes a handler for it,
  and each hook for that name leaves the world as it found it.
\<close>

theorem unbound_event_is_noop:
  assumes "\<not> GetOpcodeRegister n (TransferDataPlg w)"
  shows "(\<forall>a \<in> set (emitted w (snd (Process eng block w))). \<not> about n a)
       \<and> (\<forall>a \<in> set (emitted w (snd (txBody eng header msg tx w))). \<not> about n a)
       \<and> (\<not> IsReg (dan w) \<longrightarrow>
            (\<forall>a \<in> set (emitted w (snd (ApplyTransaction env eng header tx w))). \<not> about n a))
       \<and> (n = ''handle_BLOCK_INFO'' \<longrightarrow> blockInfoHook header w = w)
       \<and> (n = ''TXSTART'' \<longrightarrow> txStartHook w = w)
       \<and> (n = ''EXTERNALINFOSTART'' \<longrightarrow> externalInfoStartHook eng header msg tx w = w)
       \<and> (n = ''EXTERNALINFOEND'' \<longrightarrow>
            endCollect result tx w = (Inr NewTransCollector, w) \<and> errSend tcend w = w \<and>
            snd (createInfo eng msg tx receipt tcend w) = (tcend, w) \<and>
            endSend res tcend w = w)
       \<and> (n = ''TXEND'' \<longrightarrow> txEnd w = w)"
proof -
  have unb: "registry (TransferDataPlg w) n = None"
    using assms by (simp add: GetOpcodeRegister_def)
  have p1: "\<forall>a \<in> set (emitted w (snd (Process eng block w))). \<not> about n a"
    by (rule extends_unbound[OF Process_extends[OF surjective_pairing]]) (simp add: unb)
  have p2: "\<forall>a \<in> set (emitted w (snd (txBody eng header msg tx w))). \<not> about n a"
    by (rule extends_unbound[OF txBody_extends[OF surjective_pairing]]) (simp add: unb)
  have p3: "\<forall>a \<in> set (emitted w (snd (ApplyTransaction env eng header tx w))). \<not> about n a"
    if noreg: "\<not> IsReg (dan w)"
  proof (cases "tx_AsMessage tx")
    case (Inl e)
    then show ?thesis by (simp add: ApplyTransaction_def emitted_def)
  next
    case (Inr m)
    let ?w1 = "log CallStart (w\<lparr>st := SetTxStart eng True (st w), TransferDataPlg := Start (TransferDataPlg w)\<rparr>)"
    let ?w2 = "drainUnregister ?w1"
    let ?w' = "snd (txBody eng header m tx ?w2)"
    have run: "ApplyTransaction env eng header tx w = txBody eng header m tx ?w2"
      using Inr noreg
      by (simp add: ApplyTransaction_def Let_def drainPending_def drainRegister_def log_simps)
    have t2: "trace ?w2 = trace w @ (CallStart # (if IsUn (dan w) then [CallUnRegisterPlg] else []))"
      by (simp add: drainUnregister_facts log_simps)
    have r2: "registry (TransferDataPlg ?w2) n = None"
      by (rule drainUnregister_facts(2)) (simp add: log_simps Start_def unb)
    have ex: "extends (allowed [''TXSTART'', ''EXTERNALINFOSTART'', ''EXTERNALINFOEND'', ''TXEND''] True
           (registry (TransferDataPlg ?w2))) ?w2 ?w'"
      by (rule txBody_extends[OF surjective_pairing])
    have rest: "\<forall>a \<in> set (emitted ?w2 ?w'). \<not> about n a"
      by (rule extends_unbound[OF ex]) (simp add: r2)
    have "emitted w ?w' = (CallStart # (if IsUn (dan w) then [CallUnRegisterPlg] else [])) @ emitted ?w2 ?w'"
      by (rule emitted_append[OF t2 extendsD[OF ex]])
    with rest show ?thesis
      unfolding run by auto
  qed
  have hooks: "(n = ''handle_BLOCK_INFO'' \<longrightarrow> blockInfoHook header w = w)
       \<and> (n = ''TXSTART'' \<longrightarrow> txStartHook w = w)
       \<and> (n = ''EXTERNALINFOSTART'' \<longrightarrow> externalInfoStartHook eng header msg tx w = w)
       \<and> (n = ''EXTERNALINFOEND'' \<longrightarrow>
            endCollect result tx w = (Inr NewTransCollector, w) \<and> errSend tcend w = w \<and>
            snd (createInfo eng msg tx receipt tcend w) = (tcend, w) \<and>
            endSend res tcend w = w)
       \<and> (n = ''TXEND'' \<longrightarrow> txEnd w = w)"
    using assms
    by (auto simp: blockInfoHook_def txStartHook_def externalInfoStartHook_def endCollect_def
        errSend_def createInfo_def endSend_def txEnd_def Let_def)
  show ?thesis
    using p1 p2 p3 hooks by blast
qed

theorem unbound_event_is_noop_witness:
  "\<not> GetOpcodeRegister ''TXEND''
       (TransferDataPlg (world_of zero_dzd idle_dan (bind_all [''handle_BLOCK_INFO''] watching)))
   \<and> list_all (\<lambda>a. \<not> about ''TXEND'' a)
        (emitted (world_of zero_dzd idle_dan (bind_all [''handle_BLOCK_INFO''] watching))
          (snd (Process quiet_engine block100
             (world_of zero_dzd idle_dan (bind_all [''handle_BLOCK_INFO''] watching)))))
   \<and> list_all (\<lambda>a. \<not> about ''TXEND'' a)
        (emitted (world_of zero_dzd idle_dan (bind_all [''handle_BLOCK_INFO''] watching))
          (snd (ApplyTransaction (one_artifact None None) quiet_engine header100 call_tx
             (world_of zero_dzd idle_dan (bind_all [''handle_BLOCK_INFO''] watching)))))
   \<and> txEnd (world_of zero_dzd idle_dan (bind_all [''handle_BLOCK_INFO''] watching))
       = world_of zero_dzd idle_dan (bind_all [''handle_BLOCK_INFO''] watching)"
proof -
  let ?w = "world_of zero_dzd idle_dan (bind_all [''handle_BLOCK_INFO''] watching)"
  have h: "\<not> GetOpcodeRegister ''TXEND'' (TransferDataPlg ?w)"
    by (simp add: GetOpcodeRegister_def world_of_def bind_all_def RegisterOpcode_def
        empty_manage_def)
  have r: "\<not> IsReg (dan ?w)" by (simp add: world_of_def idle_dan_def)
  show ?thesis
    using h r unbound_event_is_noop[OF h, of quiet_engine block100 header100 call_msg call_tx
        "one_artifact None None"]
    by (simp add: list_all_iff)
qed

text \<open>
  Claim C9. With a handler bound to the block-info event, processing a block whose
  header number is 100 invokes that handler exactly once, with a payload whose
  block-number field is the decimal string \<open>100\<close>, and before anything \<open>Process\<close> does
  for the transactions of the block: the invocation heads what \<open>Process\<close> adds to the
  trace, and every \<open>CallPrepare\<close>, which opens the processing of a transaction, comes
  after it.
\<close>

theorem block_info_dispatched_once:
  assumes "handler_of (TransferDataPlg w) ''handle_BLOCK_INFO'' = Some f"
    and "h_Number (b_Header block) = 100"
  shows "\<exists>bc rest. trace (snd (Process eng block w)) =
           trace w @ [Build ''handle_BLOCK_INFO'',
                      Invoke ''handle_BLOCK_INFO'' (BlockInfo ''handle_BLOCK_INFO'' bc)] @ rest
         \<and> bc_Number bc = ''100''
         \<and> (\<forall>a \<in> set rest. \<not> about ''handle_BLOCK_INFO'' a)"
proof -
  let ?h = "b_Header block"
  let ?w0 = "w\<lparr>usedGas := 0, st := ApplyDAOHardFork eng (h_Number ?h) (st w)\<rparr>"
  let ?w1 = "blockInfoHook ?h ?w0"
  obtain o2 w2 where pt: "process_txs eng ?h 0 (b_Transactions block) [] ?w1 = (o2, w2)"
    by (cases "process_txs eng ?h 0 (b_Transactions block) [] ?w1")
  have reg: "GetOpcodeRegister ''handle_BLOCK_INFO'' (TransferDataPlg ?w0)"
    using assms(1) by (auto simp: GetOpcodeRegister_def handler_of_def split: option.splits)
  have hof: "handler_of (TransferDataPlg ?w0) ''handle_BLOCK_INFO'' = Some f"
    using assms(1) by simp
  have hundred: "Itoa 100 = ''100''"
    by (simp add: Itoa_def digits.simps)
  obtain bc where t1: "trace ?w1 = trace w @ [Build ''handle_BLOCK_INFO'',
                      Invoke ''handle_BLOCK_INFO'' (BlockInfo ''handle_BLOCK_INFO'' bc)]"
    and bc: "bc_Number bc = ''100''"
    using reg hof assms(2) hundred
    by (simp add: blockInfoHook_def Let_def hook_trace)
  have ex: "extends (allowed [''EXTERNALINFOEND'', ''TXEND''] True (registry (TransferDataPlg ?w1))) ?w1 w2"
    by (rule process_txs_extends[OF pt])
  have rest: "\<forall>a \<in> set (emitted ?w1 w2). \<not> about ''handle_BLOCK_INFO'' a"
    by (rule extends_unbound[OF ex]) simp
  have t2: "trace w2 = trace ?w1 @ emitted ?w1 w2"
    by (rule extendsD[OF ex])
  have "trace (snd (Process eng block w)) = trace w2"
    using pt by (cases o2) (simp_all add: Process_def Let_def)
  with t1 t2 bc rest show ?thesis by auto
qed

theorem block_info_dispatched_once_witness:
  "\<exists>bc rest. trace (snd (Process quiet_engine block100
        (world_of zero_dzd idle_dan (bind_all [''handle_BLOCK_INFO''] watching)))) =
           [Build ''handle_BLOCK_INFO'',
            Invoke ''handle_BLOCK_INFO'' (BlockInfo ''handle_BLOCK_INFO'' bc)] @ rest
         \<and> bc_Number bc = ''100''
         \<and> (\<forall>a \<in> set rest. \<not> about ''handle_BLOCK_INFO'' a)"
proof -
  let ?w = "world_of zero_dzd idle_dan (bind_all [''handle_BLOCK_INFO''] watching)"
  have h1: "handler_of (TransferDataPlg ?w) ''handle_BLOCK_INFO'' = Some watching"
    by (simp add: handler_of_def world_of_def bind_all_def RegisterOpcode_def
        empty_manage_def binding_def)
  have h2: "h_Number (b_Header block100) = 100"
    by (simp add: block100_def header100_def)
  have t: "trace ?w = []" by (simp add: world_of_def)
  show ?thesis
    using block_info_dispatched_once[OF h1 h2, of quiet_engine] by (simp add: t)
qed

lemma Itoa_one: "Itoa 1 = ''1''"
  by (simp add: Itoa_def digits.simps)

text \<open>
  Claim C5. After the transaction-start reset of \<open>ApplyTransaction\<close> (lines 256 to 269)
  the call layer is 1 if the message has a direct target and 0 otherwise, the sequence
  of all contracts touched holds at most one entry (the target, when there is one), the
  rollback flag is false, the snapshot id is 0, the call stack holds at most the frame of
  the target, the valid-call map is empty and the transaction hash is that of the
  transaction; the result does not depend on the values the variables had before, so no
  field leaks from an earlier transaction.
\<close>

theorem txStartReset_fresh:
  "CALL_LAYER (txStartReset msg tx d) = (if msg_To msg \<noteq> None then 1 else 0)
   \<and> ALL_STACK (txStartReset msg tx d) = (case msg_To msg of None \<Rightarrow> [] | Some to \<Rightarrow> [to])
   \<and> length (ALL_STACK (txStartReset msg tx d)) \<le> 1
   \<and> BLOCKING_FLAG (txStartReset msg tx d) = False
   \<and> PLUGIN_SNAPSHOT_ID (txStartReset msg tx d) = 0
   \<and> CALL_STACK (txStartReset msg tx d)
        = (case msg_To msg of None \<Rightarrow> [] | Some to \<Rightarrow> [to @ ''#1''])
   \<and> CALLVALID_MAP (txStartReset msg tx d) = Map.empty
   \<and> TxHash (txStartReset msg tx d) = tx_Hash tx
   \<and> EXTERNAL_FLAG (txStartReset msg tx d) = True
   \<and> txStartReset msg tx d = txStartReset msg tx d'"
  by (cases d; cases d') (simp add: txStartReset_def Let_def Itoa_one split: option.splits)






lemma plg_same:
  "callEnd eng msg w = (out, w1) \<Longrightarrow> TransferDataPlg w1 = TransferDataPlg w"
  "endCollect result tx w = (x, w2) \<Longrightarrow> TransferDataPlg w2 = TransferDataPlg w"
  "createInfo eng msg tx receipt tcend w = (r, t, w4) \<Longrightarrow> TransferDataPlg w4 = TransferDataPlg w"
  "TransferDataPlg (endSend res tcend w) = TransferDataPlg w"
  "TransferDataPlg (errSend tcend w) = TransferDataPlg w"
  "popFrame w = Inr w6 \<Longrightarrow> TransferDataPlg w6 = TransferDataPlg w"
  "TransferDataPlg (txStartHook w) = TransferDataPlg w"
  "TransferDataPlg (externalInfoStartHook eng header msg tx w) = TransferDataPlg w"
  by (auto simp: callEnd_def endCollect_def createInfo_def endSend_def errSend_def popFrame_def
      txStartHook_def externalInfoStartHook_def Let_def log_simps hook_same
      split: prod.splits if_splits option.splits)

lemma txEnd_running:
  "running (TransferDataPlg (txEnd w)) =
     (if GetOpcodeRegister ''TXEND'' (TransferDataPlg w) then False
      else running (TransferDataPlg w))"
  by (simp add: txEnd_def Let_def log_simps Stop_def)

lemma endOfCall_Done:
  assumes "endOfCall eng msg bn bh tx result err w = (Done receipt, w')"
  shows "\<exists>w6. w' = txEnd w6 \<and> TransferDataPlg w6 = TransferDataPlg w \<and>
           extends (allowed [''EXTERNALINFOEND''] False (registry (TransferDataPlg w))) w w6"
  using assms
proof (cases rule: endOfCall_cases)
  case (completed tcend w2 res root s3 receipt0 receipt1 tcend1 w4 w6 r)
  let ?P = "allowed [''EXTERNALINFOEND''] False (registry (TransferDataPlg w))"
  have "extends ?P w w2"
    by (rule extends_step[OF extends_refl endCollect_extends[OF completed(1)]]) auto
  then have "extends ?P w (w2\<lparr>st := s3, usedGas := usedGas w2 + UsedGas res\<rparr>)"
    by (rule extends_step[OF _ gas_extends[where P = "allowed [] False _"]]) auto
  then have "extends ?P w w4"
    by (rule extends_step[OF _ createInfo_extends[OF completed(5)]]) auto
  then have "extends ?P w (endSend res tcend1 w4)"
    by (rule extends_step[OF _ endSend_extends]) auto
  then have e: "extends ?P w w6"
    by (rule extends_step[OF _ popFrame_extends[OF completed(6), where P = "allowed [] False _"]]) auto
  have "TransferDataPlg w6 = TransferDataPlg w"
    using plg_same(2)[OF completed(1)] plg_same(3)[OF completed(5)] plg_same(6)[OF completed(6)]
    by (simp add: plg_same(4))
  with e completed(8) show ?thesis by blast
qed simp_all

lemma allowed_end_only:
  "allowed [''EXTERNALINFOEND''] rv reg a \<Longrightarrow> a \<noteq> CallStop \<and> \<not> about ''TXEND'' a"
  by (cases a) (auto simp: allowed_def)

lemmas run_defs =
  ApplyTransaction_def drainPending_def drainRegister_def drainUnregister_def txBody_def
  txStartReset_def txStartHook_def externalInfoStartHook_def applyTransaction_def callEnd_def
  endOfCall_def endCollect_def errSend_def createInfo_def endSend_def popFrame_def txEnd_def
  GetOpcodeRegister_def SendDataToPlugin_def log_def Start_def Stop_def Failed_def
  quiet_engine_def rejecting_engine_def world_of_def zero_dzd_def idle_dan_def empty_manage_def
  bind_all_def RegisterOpcode_def binding_def call_tx_def call_msg_def create_tx_def
  create_msg_def header100_def watching_def blocking_def NewTransCollector_def
  NewCallCollector_def NewCreateCollector_def Itoa_one Let_def

text \<open>
  Claim C6, as stated: every transaction processed to completion ends with the terminal
  event, if a handler is bound to it, and then with the stop of the dispatcher. The stop
  sits inside the guard of the terminal event (lines 214 to 217): a transaction with a
  direct target, processed to completion with no handler bound to \<open>TXEND\<close>, leaves the
  dispatcher started and never calls \<open>Stop\<close>.
\<close>

theorem stop_skipped_without_txend_handler:
  "\<exists>receipt w'. ApplyTransaction (one_artifact None None) quiet_engine header100 call_tx
        (world_of zero_dzd idle_dan empty_manage) = (Done receipt, w')
     \<and> trace w' = [CallStart]
     \<and> running (TransferDataPlg w') = True"
  by (simp add: run_defs)

text \<open>
  Claim C6, amended. For every transaction that \<open>applyTransaction\<close> processes to
  completion: if \<open>TXEND\<close> is registered, the last things done are the terminal event
  and then the stop of the dispatcher, after everything else of the transaction, so
  after every external-info-end dispatch; if \<open>TXEND\<close> is not registered, neither the
  event nor the stop happens and the dispatcher stays as it was.
\<close>

theorem tx_end_closes_when_bound:
  assumes "applyTransaction eng msg bn bh tx w = (Done receipt, w')"
  shows "\<exists>pre. trace w' = trace w @ pre @
           (if GetOpcodeRegister ''TXEND'' (TransferDataPlg w)
            then Build ''TXEND''
                   # (case handler_of (TransferDataPlg w) ''TXEND'' of
                        None \<Rightarrow> [] | Some f \<Rightarrow> [Invoke ''TXEND'' (Flag ''TXEND'')])
                   @ [CallStop]
            else [])
         \<and> list_all (\<lambda>a. a \<noteq> CallStop \<and> \<not> about ''TXEND'' a) pre
         \<and> running (TransferDataPlg w') =
             (if GetOpcodeRegister ''TXEND'' (TransferDataPlg w) then False
              else running (TransferDataPlg w))"
proof -
  obtain result err w1 where ce: "callEnd eng msg w = ((result, err), w1)"
    by (cases "callEnd eng msg w") auto
  have eo: "endOfCall eng msg bn bh tx result err w1 = (Done receipt, w')"
    using assms ce by (simp add: applyTransaction_def)
  from endOfCall_Done[OF eo] obtain w6 where w6: "w' = txEnd w6"
    "TransferDataPlg w6 = TransferDataPlg w1"
    "extends (allowed [''EXTERNALINFOEND''] False (registry (TransferDataPlg w1))) w1 w6"
    by blast
  have p1: "TransferDataPlg w1 = TransferDataPlg w" by (rule plg_same(1)[OF ce])
  let ?P = "allowed [''EXTERNALINFOEND''] True (registry (TransferDataPlg w))"
  have "extends ?P w w1"
    by (rule extends_step[OF extends_refl callEnd_extends[OF ce]]) auto
  then have e: "extends ?P w w6"
    by (rule extends_step[OF _ w6(3)]) auto
  have pre: "list_all (\<lambda>a. a \<noteq> CallStop \<and> \<not> about ''TXEND'' a) (emitted w w6)"
    using e allowed_end_only unfolding extends_def list_all_iff by blast
  have "trace w' = trace w @ emitted w w6 @
           (if GetOpcodeRegister ''TXEND'' (TransferDataPlg w)
            then Build ''TXEND''
                   # (case handler_of (TransferDataPlg w) ''TXEND'' of
                        None \<Rightarrow> [] | Some f \<Rightarrow> [Invoke ''TXEND'' (Flag ''TXEND'')])
                   @ [CallStop]
            else [])"
    unfolding w6(1) txEnd_trace using extendsD[OF e] by (simp add: w6(2) p1)
  moreover have "running (TransferDataPlg w') =
             (if GetOpcodeRegister ''TXEND'' (TransferDataPlg w) then False
              else running (TransferDataPlg w))"
    unfolding w6(1) txEnd_running by (simp add: w6(2) p1)
  ultimately show ?thesis using pre by blast
qed


theorem tx_end_closes_when_bound_witness:
  "\<exists>receipt w' pre. applyTransaction quiet_engine call_msg 100 ''0x100'' call_tx
        (world_of (txStartReset call_msg call_tx zero_dzd) idle_dan
           (bind_all [''EXTERNALINFOEND'', ''TXEND''] watching)) = (Done receipt, w')
     \<and> trace w' = pre @ [Build ''TXEND'', Invoke ''TXEND'' (Flag ''TXEND''), CallStop]
     \<and> list_all (\<lambda>a. a \<noteq> CallStop \<and> \<not> about ''TXEND'' a) pre
     \<and> running (TransferDataPlg w') = False"
proof -
  let ?w = "world_of (txStartReset call_msg call_tx zero_dzd) idle_dan
           (bind_all [''EXTERNALINFOEND'', ''TXEND''] watching)"
  obtain receipt w' where run:
    "applyTransaction quiet_engine call_msg 100 ''0x100'' call_tx ?w = (Done receipt, w')"
    by (simp add: run_defs)
  have g: "GetOpcodeRegister ''TXEND'' (TransferDataPlg ?w)"
    "handler_of (TransferDataPlg ?w) ''TXEND'' = Some watching" "trace ?w = []"
    by (simp_all add: GetOpcodeRegister_def handler_of_def world_of_def bind_all_def
        RegisterOpcode_def binding_def empty_manage_def)
  show ?thesis
    using tx_end_closes_when_bound[OF run] run by (simp add: g)
qed

section \<open>The call stack and the rollback\<close>

lemma keep_hook:
  "handlers_keep g (TransferDataPlg w) \<Longrightarrow>
   g (dzd (SendDataToPlugin n p (log a w))) = g (dzd w)"
  by (auto simp: SendDataToPlugin_def log_def handlers_keep_def split: option.splits)

lemma keep_phases:
  assumes "handlers_keep g (TransferDataPlg w)"
  shows "g (dzd (txStartHook w)) = g (dzd w)"
    and "g (dzd (externalInfoStartHook eng header msg tx w)) = g (dzd w)"
    and "g (dzd (errSend tcend w)) = g (dzd w)"
    and "g (dzd (endSend res tcend w)) = g (dzd w)"
  using assms
  by (simp_all add: txStartHook_def externalInfoStartHook_def errSend_def endSend_def Let_def
      keep_hook)

lemma keep_txEnd:
  "handlers_keep g (TransferDataPlg w) \<Longrightarrow> g (dzd (txEnd w)) = g (dzd w)"
  by (simp add: txEnd_def Let_def log_simps keep_hook)

lemma dzd_same:
  "endCollect result tx w = (x, w2) \<Longrightarrow> dzd w2 = dzd w"
  "createInfo eng msg tx receipt tcend w = (r, t, w4) \<Longrightarrow> dzd w4 = dzd w"
  by (auto simp: endCollect_def createInfo_def Let_def log_simps split: if_splits option.splits)







lemma txStartReset_layer_matches_stack:
  "CALL_LAYER (txStartReset msg tx d) = int (length (CALL_STACK (txStartReset msg tx d)))"
  by (simp add: txStartReset_def Let_def split: option.splits)

text \<open>
  Claim C3. Outside a single push or pop the call-layer counter equals the length of the
  call stack. The push of the transaction-start reset keeps the two together (lemma
  above), but the pop of line 212 shortens the stack and leaves the counter: after a
  transaction with a direct target, run to completion by an engine and with a registry
  that touch neither, the counter is 1 and the stack is empty.
\<close>

theorem call_layer_not_decremented_at_pop:
  "\<exists>receipt w'. ApplyTransaction (one_artifact None None) quiet_engine header100 call_tx
        (world_of zero_dzd idle_dan empty_manage) = (Done receipt, w')
     \<and> CALL_LAYER (dzd w') = 1
     \<and> int (length (CALL_STACK (dzd w'))) = 0"
  by (simp add: run_defs)

lemma not_revert_allowed:
  "allowed ns False reg a \<Longrightarrow> \<not> is_revert a"
  by (cases a) (auto simp: allowed_def)

lemma no_reverts:
  "extends (allowed ns False reg) w w' \<Longrightarrow> list_all (\<lambda>a. \<not> is_revert a) (emitted w w')"
  unfolding extends_def list_all_iff using not_revert_allowed by blast

lemma callEnd_flagged:
  assumes "ApplyMessage eng msg (dzd w) (st w) = (out, d, s)" and "BLOCKING_FLAG d"
  shows "\<exists>w1. callEnd eng msg w = (out, w1) \<and> dzd w1 = d
           \<and> trace w1 = trace w @ [CallRevertToSnapshot (PLUGIN_SNAPSHOT_ID d)]
           \<and> st w1 = RevertToSnapshot eng (PLUGIN_SNAPSHOT_ID d) s
           \<and> TransferDataPlg w1 = TransferDataPlg w"
  using assms by (simp add: callEnd_def Let_def log_simps log_def)

lemma callEnd_unflagged:
  assumes "ApplyMessage eng msg (dzd w) (st w) = (out, d, s)" and "\<not> BLOCKING_FLAG d"
  shows "callEnd eng msg w = (out, w\<lparr>dzd := d, st := s\<rparr>)"
  using assms by (simp add: callEnd_def Let_def)

lemma popFrame_keeps_flag:
  "popFrame w = Inr w6 \<Longrightarrow> BLOCKING_FLAG (dzd w6) = BLOCKING_FLAG (dzd w)"
  by (auto simp: popFrame_def split: if_splits)

lemma endOfCall_keeps_flag:
  assumes "endOfCall eng msg bn bh tx result err w = (out, w')"
    and k: "handlers_keep BLOCKING_FLAG (TransferDataPlg w)"
  shows "BLOCKING_FLAG (dzd w') = BLOCKING_FLAG (dzd w)"
  using assms(1)
proof (cases rule: endOfCall_cases)
  case (collect_halt h)
  then show ?thesis by (simp add: dzd_same(1))
next
  case (error tcend w2 e)
  have "handlers_keep BLOCKING_FLAG (TransferDataPlg w2)"
    using k plg_same(2)[OF error(1)] by simp
  then show ?thesis
    unfolding error(4) using dzd_same(1)[OF error(1)] by (simp add: keep_phases)
next
  case (nil_result tcend)
  then show ?thesis by (simp add: dzd_same(1))
next
  case (pop_halt tcend w2 res root s3 receipt receipt1 tcend1 w4 h)
  have p4: "TransferDataPlg w4 = TransferDataPlg w"
    using plg_same(2)[OF pop_halt(1)] plg_same(3)[OF pop_halt(5)] by simp
  have d4: "dzd w4 = dzd w"
    using dzd_same(1)[OF pop_halt(1)] dzd_same(2)[OF pop_halt(5)] by simp
  show ?thesis
    unfolding pop_halt(8) using keep_phases(4)[of BLOCKING_FLAG w4] k by (simp add: p4 d4)
next
  case (completed tcend w2 res root s3 receipt receipt1 tcend1 w4 w6 r)
  have p4: "TransferDataPlg w4 = TransferDataPlg w"
    using plg_same(2)[OF completed(1)] plg_same(3)[OF completed(5)] by simp
  have d4: "dzd w4 = dzd w"
    using dzd_same(1)[OF completed(1)] dzd_same(2)[OF completed(5)] by simp
  have f5: "BLOCKING_FLAG (dzd (endSend res tcend1 w4)) = BLOCKING_FLAG (dzd w)"
    using keep_phases(4)[of BLOCKING_FLAG w4] k by (simp add: p4 d4)
  have p6: "TransferDataPlg w6 = TransferDataPlg w"
    using plg_same(6)[OF completed(6)] by (simp add: plg_same(4) p4)
  have "BLOCKING_FLAG (dzd (txEnd w6)) = BLOCKING_FLAG (dzd w6)"
    by (rule keep_txEnd) (simp add: p6 k)
  then show ?thesis
    unfolding completed(8) using popFrame_keeps_flag[OF completed(6)] f5 by simp
qed

lemma txBody_without_stale_rollback:
  assumes k: "handlers_keep BLOCKING_FLAG (TransferDataPlg w)"
    and e: "\<forall>d s. \<not> BLOCKING_FLAG d \<longrightarrow> \<not> BLOCKING_FLAG (fst (snd (ApplyMessage eng msg d s)))"
  shows "list_all (\<lambda>a. \<not> is_revert a) (emitted w (snd (txBody eng header msg tx w)))"
proof -
  let ?ns = "[''TXSTART'', ''EXTERNALINFOSTART'', ''EXTERNALINFOEND'', ''TXEND'']"
  let ?P = "allowed ?ns False (registry (TransferDataPlg w))"
  let ?w0 = "w\<lparr>dzd := txStartReset msg tx (dzd w)\<rparr>"
  let ?w1 = "txStartHook ?w0"
  let ?w2 = "externalInfoStartHook eng header msg tx ?w1"
  have f0: "\<not> BLOCKING_FLAG (dzd ?w0)"
    by (simp add: txStartReset_def Let_def split: option.splits)
  have k0: "handlers_keep BLOCKING_FLAG (TransferDataPlg ?w0)" using k by simp
  have f1: "\<not> BLOCKING_FLAG (dzd ?w1)" using keep_phases(1)[OF k0] f0 by simp
  have k1: "handlers_keep BLOCKING_FLAG (TransferDataPlg ?w1)" using k0 by (simp add: plg_same)
  have f2: "\<not> BLOCKING_FLAG (dzd ?w2)" using keep_phases(2)[OF k1] f1 by simp
  obtain out d s where am: "ApplyMessage eng msg (dzd ?w2) (st ?w2) = (out, d, s)"
    by (cases "ApplyMessage eng msg (dzd ?w2) (st ?w2)")
  have fd: "\<not> BLOCKING_FLAG d" using e f2 am by (metis fst_conv snd_conv)
  have ce: "callEnd eng msg ?w2 = (out, ?w2\<lparr>dzd := d, st := s\<rparr>)"
    by (rule callEnd_unflagged[OF am fd])
  obtain result err where out: "out = (result, err)" by (cases out)
  obtain o' w' where eo: "endOfCall eng msg (h_Number header) (h_Hash header) tx result err
       (?w2\<lparr>dzd := d, st := s\<rparr>) = (o', w')"
    by (cases "endOfCall eng msg (h_Number header) (h_Hash header) tx result err (?w2\<lparr>dzd := d, st := s\<rparr>)")
  have run: "txBody eng header msg tx w = (o', w')"
    using ce eo out by (simp add: txBody_def applyTransaction_def)
  have "extends ?P w ?w0" by (simp add: extends_def emitted_def)
  then have "extends ?P w ?w1"
    by (rule extends_step[OF _ txStartHook_extends]) auto
  then have "extends ?P w ?w2"
    by (rule extends_step[OF _ externalInfoStartHook_extends]) auto
  then have "extends ?P w (?w2\<lparr>dzd := d, st := s\<rparr>)"
    by (simp add: extends_def emitted_def)
  then have "extends ?P w w'"
    by (rule extends_step[OF _ endOfCall_extends[OF eo]]) auto
  then show ?thesis
    unfolding run snd_conv by (rule no_reverts)
qed

lemma first_call:
  "applyTransaction quiet_engine call_msg 100 ''0x100'' call_tx
       (world_of flagged_dzd idle_dan empty_manage)
   = (Done \<lparr>r_Type = 0, r_PostState = [], r_CumulativeGasUsed = 21000,
             r_Status = ReceiptStatusSuccessful, r_TxHash = ''0x1'', r_GasUsed = 21000,
             r_ContractAddress = None, r_BlockHash = ''0x100'', r_BlockNumber = 100,
             r_TransactionIndex = 0\<rparr>,
      (world_of (flagged_dzd\<lparr>CALL_STACK := []\<rparr>) idle_dan empty_manage)
        \<lparr>usedGas := 21000, trace := [CallRevertToSnapshot 7]\<rparr>)"
  by (simp add: run_defs flagged_dzd_def)

lemma second_call:
  "applyTransaction quiet_engine call_msg 100 ''0x100'' call_tx
      ((world_of (flagged_dzd\<lparr>CALL_STACK := []\<rparr>) idle_dan empty_manage)
        \<lparr>usedGas := 21000, trace := [CallRevertToSnapshot 7]\<rparr>)
   = (Halted slice_bounds,
      (world_of (flagged_dzd\<lparr>CALL_STACK := []\<rparr>) idle_dan empty_manage)
        \<lparr>usedGas := 42000, trace := [CallRevertToSnapshot 7, CallRevertToSnapshot 7]\<rparr>)"
  by (simp add: run_defs flagged_dzd_def)

text \<open>
  Claim C1, as stated: at a call-end with the rollback flag set the dispatcher reverts
  once to the recorded snapshot and then clears the flag, so that later call-ends find
  it false unless an extension sets it again. \<open>applyTransaction\<close> never writes the flag:
  with the flag set and snapshot 7 recorded, and no handler bound at all, it reverts to
  7 and returns with the flag still set; the next call-end that \<open>Process\<close> reaches,
  which resets nothing, reverts to 7 a second time.
\<close>

theorem rollback_flag_survives_call_end:
  "BLOCKING_FLAG (dzd (snd (applyTransaction quiet_engine call_msg 100 ''0x100'' call_tx
       (world_of flagged_dzd idle_dan empty_manage)))) = True
   \<and> trace (snd (applyTransaction quiet_engine call_msg 100 ''0x100'' call_tx
        (snd (applyTransaction quiet_engine call_msg 100 ''0x100'' call_tx
           (world_of flagged_dzd idle_dan empty_manage)))))
       = [CallRevertToSnapshot 7, CallRevertToSnapshot 7]"
  unfolding first_call snd_conv second_call
  by (simp add: world_of_def flagged_dzd_def)

text \<open>
  Claim C1, amended. At every call-end at which the rollback flag is set,
  \<open>applyTransaction\<close> tells the state store to revert to the recorded snapshot id exactly
  once, before anything else it does after the message. It does not clear the flag: when
  no bound handler writes the flag it is still set on return. The flag is cleared by the
  transaction-start reset of \<open>ApplyTransaction\<close>: whatever the flag was before, a
  transaction that goes through the reset reverts nothing at its call-end unless a
  handler or the engine sets the flag again.
\<close>

theorem rollback_once_flag_not_cleared:
  assumes "ApplyMessage eng msg (dzd w) (st w) = (out, d, s)" and "BLOCKING_FLAG d"
  shows "(\<exists>rest. emitted w (snd (applyTransaction eng msg bn bh tx w))
                   = CallRevertToSnapshot (PLUGIN_SNAPSHOT_ID d) # rest
                 \<and> list_all (\<lambda>a. \<not> is_revert a) rest)
       \<and> (handlers_keep BLOCKING_FLAG (TransferDataPlg w) \<longrightarrow>
            BLOCKING_FLAG (dzd (snd (applyTransaction eng msg bn bh tx w))) = True)
       \<and> BLOCKING_FLAG (txStartReset msg tx (dzd w)) = False
       \<and> (handlers_keep BLOCKING_FLAG (TransferDataPlg w0)
            \<and> (\<forall>d s. \<not> BLOCKING_FLAG d
                       \<longrightarrow> \<not> BLOCKING_FLAG (fst (snd (ApplyMessage eng msg d s))))
            \<longrightarrow> list_all (\<lambda>a. \<not> is_revert a)
                  (emitted w0 (snd (txBody eng header msg tx w0))))"
proof -
  obtain result err where out: "out = (result, err)" by (cases out)
  from callEnd_flagged[OF assms] obtain w1 where
    ce: "callEnd eng msg w = (out, w1)" and d1: "dzd w1 = d"
    and t1: "trace w1 = trace w @ [CallRevertToSnapshot (PLUGIN_SNAPSHOT_ID d)]"
    and p1: "TransferDataPlg w1 = TransferDataPlg w"
    by blast
  obtain o' w' where eo: "endOfCall eng msg bn bh tx result err w1 = (o', w')"
    by (cases "endOfCall eng msg bn bh tx result err w1")
  have run: "applyTransaction eng msg bn bh tx w = (o', w')"
    using ce eo out by (simp add: applyTransaction_def)
  have ex: "extends (allowed [''EXTERNALINFOEND'', ''TXEND''] False (registry (TransferDataPlg w1))) w1 w'"
    by (rule endOfCall_extends[OF eo])
  have "emitted w w' = [CallRevertToSnapshot (PLUGIN_SNAPSHOT_ID d)] @ emitted w1 w'"
    by (rule emitted_append[OF t1 extendsD[OF ex]])
  then have a: "\<exists>rest. emitted w w' = CallRevertToSnapshot (PLUGIN_SNAPSHOT_ID d) # rest
                 \<and> list_all (\<lambda>a. \<not> is_revert a) rest"
    using no_reverts[OF ex] by simp
  have b: "BLOCKING_FLAG (dzd w') = True" if "handlers_keep BLOCKING_FLAG (TransferDataPlg w)"
    using endOfCall_keeps_flag[OF eo] that assms(2) by (simp add: p1 d1)
  have c: "BLOCKING_FLAG (txStartReset msg tx (dzd w)) = False"
    by (simp add: txStartReset_def Let_def split: option.splits)
  have d: "handlers_keep BLOCKING_FLAG (TransferDataPlg w0)
            \<and> (\<forall>d s. \<not> BLOCKING_FLAG d
                       \<longrightarrow> \<not> BLOCKING_FLAG (fst (snd (ApplyMessage eng msg d s))))
            \<longrightarrow> list_all (\<lambda>a. \<not> is_revert a)
                  (emitted w0 (snd (txBody eng header msg tx w0)))"
    using txBody_without_stale_rollback by blast
  show ?thesis
    unfolding run snd_conv using a b c d by blast
qed

theorem rollback_once_flag_not_cleared_witness:
  "(\<exists>rest. emitted (world_of flagged_dzd idle_dan (bind_all [''EXTERNALINFOEND''] watching))
             (snd (applyTransaction quiet_engine call_msg 100 ''0x100'' call_tx
                (world_of flagged_dzd idle_dan (bind_all [''EXTERNALINFOEND''] watching))))
           = CallRevertToSnapshot 7 # rest
         \<and> list_all (\<lambda>a. \<not> is_revert a) rest)
   \<and> BLOCKING_FLAG (dzd (snd (applyTransaction quiet_engine call_msg 100 ''0x100'' call_tx
          (world_of flagged_dzd idle_dan (bind_all [''EXTERNALINFOEND''] watching))))) = True"
proof -
  let ?w = "world_of flagged_dzd idle_dan (bind_all [''EXTERNALINFOEND''] watching)"
  have h1: "ApplyMessage quiet_engine call_msg (dzd ?w) (st ?w)
      = ((Some \<lparr>UsedGas = 21000, Err = None, ReturnData = []\<rparr>, None), flagged_dzd, ())"
    by (simp add: quiet_engine_def world_of_def)
  have h2: "BLOCKING_FLAG flagged_dzd" by (simp add: flagged_dzd_def)
  have h3: "handlers_keep BLOCKING_FLAG (TransferDataPlg ?w)"
    unfolding handlers_keep_def
    by (simp add: world_of_def bind_all_def RegisterOpcode_def binding_def
        empty_manage_def watching_def)
  have id: "PLUGIN_SNAPSHOT_ID flagged_dzd = 7" by (simp add: flagged_dzd_def)
  note t = rollback_once_flag_not_cleared[OF h1 h2, of 100 "''0x100''" call_tx, unfolded id]
  from t h3 show ?thesis by blast
qed

end
